theory Spec2Isabelle
  imports Complex_Main
begin

section \<open>Timesheets: the overtime classifier of \<^verbatim>\<open>src/app/api/timesheets/route.ts\<close>\<close>

text \<open>
  A JavaScript \<^verbatim>\<open>Date\<close> is its number of milliseconds, read on the wall clock of the
  server's time zone (a zone with a fixed offset, such as Singapore's, so that every
  calendar day has 86400000 ms). \<^verbatim>\<open>getTime()\<close> differences are offset-free, and
  \<^verbatim>\<open>setHours\<close> works on the wall clock, so the offset itself never appears.
  JavaScript numbers that hold hours, rates and pay in the timesheet handler are exact
  rationals here; the rounding of IEEE doubles is not part of the model of that handler.
\<close>

type_synonym Date = int

definition setHours :: "Date \<Rightarrow> int \<Rightarrow> int \<Rightarrow> int \<Rightarrow> int \<Rightarrow> Date" where
  "setHours d h m s ms = d - d mod 86400000 + h * 3600000 + m * 60000 + s * 1000 + ms"

datatype period_type = normal | ot1_5 | ot2

record period =
  p_start :: Date
  p_end :: Date
  p_rate :: rat
  p_type :: period_type

record overtime =
  normalHours :: rat
  ot1_5Hours :: rat
  ot2Hours :: rat
  totalHours :: rat
  overtimePay :: rat

text \<open>The three windows that \<^verbatim>\<open>calculateOvertime\<close> anchors to the day of \<^verbatim>\<open>clockIn\<close>,
  in the order of the source's \<^verbatim>\<open>periods\<close> array.\<close>

definition periods :: "Date \<Rightarrow> period list" where
  "periods clockIn =
     [\<lparr>p_start = setHours clockIn 8 0 0 0, p_end = setHours clockIn 17 0 0 0,
       p_rate = 1, p_type = normal\<rparr>,
      \<lparr>p_start = setHours clockIn 17 0 0 0, p_end = setHours clockIn 23 59 59 999,
       p_rate = 3 / 2, p_type = ot1_5\<rparr>,
      \<lparr>p_start = setHours clockIn 0 0 0 0, p_end = setHours clockIn 8 0 0 0,
       p_rate = 2, p_type = ot2\<rparr>]"

text \<open>The body of \<^verbatim>\<open>periods.forEach\<close>; the triple is the three mutable locals
  \<^verbatim>\<open>normalHours\<close>, \<^verbatim>\<open>ot1_5Hours\<close>, \<^verbatim>\<open>ot2Hours\<close>. The normal case assigns, the other
  two add.\<close>

definition forEach_body :: "Date \<Rightarrow> Date \<Rightarrow> rat \<times> rat \<times> rat \<Rightarrow> period \<Rightarrow> rat \<times> rat \<times> rat" where
  "forEach_body clockIn clockOut acc p =
     (case acc of (nH, o15H, o2H) \<Rightarrow>
        let periodStart = max clockIn (p_start p);
            periodEnd = min clockOut (p_end p)
        in if periodEnd > periodStart then
             let hoursInPeriod = of_int (periodEnd - periodStart) / (1000 * 60 * 60)
             in (case p_type p of
                   normal \<Rightarrow> (min hoursInPeriod 8, o15H, o2H)
                 | ot1_5 \<Rightarrow> (nH, o15H + hoursInPeriod, o2H)
                 | ot2 \<Rightarrow> (nH, o15H, o2H + hoursInPeriod))
           else acc)"

definition calculateOvertime :: "Date \<Rightarrow> Date \<Rightarrow> rat \<Rightarrow> overtime" where
  "calculateOvertime clockIn clockOut hourlyRate =
     (let totalMs = clockOut - clockIn;
          totalH = of_int totalMs / (1000 * 60 * 60)
      in case foldl (forEach_body clockIn clockOut) (0, 0, 0) (periods clockIn) of
           (nH, o15H, o2H) \<Rightarrow>
             \<lparr>normalHours = max 0 nH,
              ot1_5Hours = max 0 o15H,
              ot2Hours = max 0 o2H,
              totalHours = max 0 totalH,
              overtimePay = (o15H * hourlyRate * (3 / 2)) + (o2H * hourlyRate * 2)\<rparr>)"

text \<open>The break adjustment of the POST handler (\<^verbatim>\<open>// Adjust for break time\<close>): only
  \<^verbatim>\<open>normalHours\<close> and \<^verbatim>\<open>totalHours\<close> are assigned.\<close>

definition adjustForBreak :: "rat \<Rightarrow> overtime \<Rightarrow> overtime" where
  "adjustForBreak breakMinutes oc =
     (let breakHours = breakMinutes / 60
      in oc\<lparr>normalHours := max 0 (normalHours oc - breakHours),
            totalHours := max 0 (totalHours oc - breakHours)\<rparr>)"

section \<open>Authorisation: \<^verbatim>\<open>src/lib/auth.ts\<close>\<close>

text \<open>The \<^verbatim>\<open>AuthUser\<close> interface; \<^verbatim>\<open>AuthUser | null\<close> is \<open>AuthUser option\<close>. The field
  \<^verbatim>\<open>id\<close> is written \<open>id'\<close>.\<close>

record AuthUser =
  id' :: string
  email :: string
  name :: string
  companyId :: "string option"
  roles :: "string list"
  permissions :: "string list"

definition hasPermission :: "AuthUser option \<Rightarrow> string \<Rightarrow> bool" where
  "hasPermission user permission =
     (case user of
        None \<Rightarrow> False
      | Some u \<Rightarrow> permission \<in> set (permissions u) \<or> ''*'' \<in> set (permissions u))"

text \<open>JavaScript truthiness of an optional string: \<^verbatim>\<open>undefined\<close>, \<^verbatim>\<open>null\<close> and the
  empty string are falsy.\<close>

definition truthy :: "string option \<Rightarrow> bool" where
  "truthy v = (case v of None \<Rightarrow> False | Some s \<Rightarrow> s \<noteq> [])"

section \<open>The database\<close>

text \<open>
  Rows carry the SQL column names of \<^verbatim>\<open>init.sql\<close> (Prisma maps the camel-case fields of
  the handlers to them); a column whose name is also a request field takes a \<open>_col\<close>
  suffix or a prime. Only the columns that the handlers and the trigger read or write
  are kept. Constraints other than the primary keys and the unique key
  \<^verbatim>\<open>employeeId_date\<close> of timesheets belong to the Prisma schema, which is not among the
  sources, and are not modelled.
\<close>

datatype status = PENDING | APPROVED | REJECTED

record employee =
  emp_id :: string
  employee_code :: string
  first_name :: string
  last_name :: string
  email_col :: string
  nric_col :: string
  basic_salary :: rat
  hourly_rate :: rat
  company_id :: "string option"

record timesheet =
  employee_id :: string
  date' :: Date
  clock_in :: Date
  clock_out :: Date
  break_minutes :: rat
  normal_hours :: rat
  ot1_5_hours :: rat
  ot2_hours :: rat
  total_hours :: rat
  project_assignment_id :: "string option"
  status :: status

text \<open>A project row; \<open>None\<close> is SQL \<^verbatim>\<open>NULL\<close>.\<close>

record project =
  actual_cost :: "rat option"

record db =
  employees :: "employee list"
  timesheets :: "string \<times> Date \<rightharpoonup> timesheet"
  project_assignments :: "string \<rightharpoonup> string"
  projects :: "string \<rightharpoonup> project"

section \<open>The cost trigger of \<^verbatim>\<open>init.sql\<close>\<close>

text \<open>SQL arithmetic on nullable numerics: a \<^verbatim>\<open>NULL\<close> operand gives \<^verbatim>\<open>NULL\<close>.\<close>

definition sql_add :: "rat option \<Rightarrow> rat option \<Rightarrow> rat option" where
  "sql_add a b = (case a of None \<Rightarrow> None | Some x \<Rightarrow> (case b of None \<Rightarrow> None | Some y \<Rightarrow> Some (x + y)))"

definition sql_mul :: "rat option \<Rightarrow> rat option \<Rightarrow> rat option" where
  "sql_mul a b = (case a of None \<Rightarrow> None | Some x \<Rightarrow> (case b of None \<Rightarrow> None | Some y \<Rightarrow> Some (x * y)))"

definition calculate_overtime_pay :: "rat option \<Rightarrow> rat option \<Rightarrow> rat option \<Rightarrow> rat option \<Rightarrow> rat option" where
  "calculate_overtime_pay p_normal_hours p_ot1_5_hours p_ot2_hours p_hourly_rate =
     sql_add (sql_mul (sql_mul p_ot1_5_hours p_hourly_rate) (Some (3 / 2)))
             (sql_mul (sql_mul p_ot2_hours p_hourly_rate) (Some 2))"

text \<open>\<^verbatim>\<open>SELECT hourly_rate FROM employees WHERE id = ...\<close>: \<^verbatim>\<open>NULL\<close> when no row matches.\<close>

definition select_hourly_rate :: "db \<Rightarrow> string \<Rightarrow> rat option" where
  "select_hourly_rate d eid = map_option hourly_rate (find (\<lambda>e. emp_id e = eid) (employees d))"

text \<open>The trigger function, on the rows \<^verbatim>\<open>OLD\<close> and \<^verbatim>\<open>NEW\<close>. The \<^verbatim>\<open>UPDATE projects\<close>
  touches the row whose id is the assignment's \<^verbatim>\<open>project_id\<close>; a \<^verbatim>\<open>NULL\<close> or dangling
  assignment matches no row.\<close>

definition update_project_actual_cost :: "db \<Rightarrow> timesheet \<Rightarrow> timesheet \<Rightarrow> db" where
  "update_project_actual_cost d OLD NEW =
     (if status NEW = APPROVED \<and> status OLD \<noteq> APPROVED then
        (case (case project_assignment_id NEW of None \<Rightarrow> None
               | Some a \<Rightarrow> project_assignments d a) of
           None \<Rightarrow> d
         | Some pid \<Rightarrow>
             (case projects d pid of
                None \<Rightarrow> d
              | Some p \<Rightarrow>
                  d\<lparr>projects := (projects d)(pid \<mapsto>
                      p\<lparr>actual_cost :=
                          sql_add (actual_cost p)
                            (sql_add
                               (sql_mul (Some (normal_hours NEW))
                                        (select_hourly_rate d (employee_id NEW)))
                               (calculate_overtime_pay (Some (normal_hours NEW))
                                  (Some (ot1_5_hours NEW)) (Some (ot2_hours NEW))
                                  (select_hourly_rate d (employee_id NEW))))\<rparr>)\<rparr>))
      else d)"

text \<open>\<^verbatim>\<open>CREATE TRIGGER ... AFTER UPDATE ON timesheets FOR EACH ROW\<close>: an \<^verbatim>\<open>UPDATE\<close> of the
  row with the given key replaces it by \<open>upd\<close> of the old row and then runs the trigger
  function. Updates of one row are serialised by the database's row lock, so each sees
  as \<^verbatim>\<open>OLD\<close> the row the previous one wrote.\<close>

definition timesheet_update :: "db \<Rightarrow> string \<times> Date \<Rightarrow> (timesheet \<Rightarrow> timesheet) \<Rightarrow> db" where
  "timesheet_update d key upd =
     (case timesheets d key of
        None \<Rightarrow> d
      | Some OLD \<Rightarrow>
          update_project_actual_cost (d\<lparr>timesheets := (timesheets d)(key \<mapsto> upd OLD)\<rparr>)
            OLD (upd OLD))"

section \<open>\<^verbatim>\<open>POST /api/timesheets\<close>\<close>

text \<open>The JSON body. \<open>clockOut = None\<close> is a falsy \<^verbatim>\<open>clockOut\<close>, \<open>breakMinutes = None\<close> a
  missing one (the destructuring default is 0). For \<^verbatim>\<open>projectAssignmentId\<close>, \<open>None\<close> is
  a missing key (\<^verbatim>\<open>undefined\<close>: Prisma leaves the column as it is on update), \<open>Some None\<close>
  is \<^verbatim>\<open>null\<close>.\<close>

record timesheet_data =
  employeeId :: string
  date :: Date
  clockIn :: Date
  clockOut :: "Date option"
  breakMinutes :: "rat option"
  projectAssignmentId :: "string option option"

datatype 'a response = Json_error nat string | Json_ok nat 'a

text \<open>\<^verbatim>\<open>db.timesheet.upsert\<close> on the unique key \<^verbatim>\<open>employeeId_date\<close>: the row that is
  returned, and the new database. The update branch is an SQL \<^verbatim>\<open>UPDATE\<close>, so the
  trigger runs.\<close>

definition timesheet_upsert ::
    "db \<Rightarrow> string \<times> Date \<Rightarrow> (timesheet \<Rightarrow> timesheet) \<Rightarrow> timesheet \<Rightarrow> timesheet \<times> db" where
  "timesheet_upsert d key upd create =
     (case timesheets d key of
        None \<Rightarrow> (create, d\<lparr>timesheets := (timesheets d)(key \<mapsto> create)\<rparr>)
      | Some OLD \<Rightarrow> (upd OLD, timesheet_update d key upd))"

text \<open>The handler. \<open>user\<close> is what \<^verbatim>\<open>verifyAuth\<close> returned and \<open>now\<close> the value of
  \<^verbatim>\<open>new Date()\<close> at the time of the call. The response carries the saved row and
  \<^verbatim>\<open>overtimePay\<close>. The \<^verbatim>\<open>catch\<close> branch (status 500) answers exceptions thrown by the
  database client or by a malformed body; the model has neither, so it has no such
  branch.\<close>

definition POST_timesheets ::
    "db \<Rightarrow> AuthUser option \<Rightarrow> Date \<Rightarrow> timesheet_data \<Rightarrow> (timesheet \<times> rat) response \<times> db" where
  "POST_timesheets d user now data =
     (case user of
        None \<Rightarrow> (Json_error 401 ''Unauthorized'', d)
      | Some u \<Rightarrow>
          if \<not> hasPermission user ''timesheets.create'' then (Json_error 401 ''Unauthorized'', d)
          else
            (case find (\<lambda>e. emp_id e = employeeId data) (employees d) of
               None \<Rightarrow> (Json_error 404 ''Employee not found'', d)
             | Some employee \<Rightarrow>
                 if truthy (companyId u) \<and> company_id employee \<noteq> companyId u
                 then (Json_error 403 ''Access denied'', d)
                 else
                   let clockInTime = clockIn data;
                       clockOutTime = (case clockOut data of Some t \<Rightarrow> t | None \<Rightarrow> now);
                       breakMins = (case breakMinutes data of Some b \<Rightarrow> b | None \<Rightarrow> 0);
                       overtimeCalculation =
                         adjustForBreak breakMins
                           (calculateOvertime clockInTime clockOutTime (hourly_rate employee));
                       upd = (\<lambda>row. row\<lparr>clock_in := clockInTime,
                                clock_out := clockOutTime,
                                break_minutes := breakMins,
                                normal_hours := normalHours overtimeCalculation,
                                ot1_5_hours := ot1_5Hours overtimeCalculation,
                                ot2_hours := ot2Hours overtimeCalculation,
                                total_hours := totalHours overtimeCalculation,
                                project_assignment_id :=
                                  (case projectAssignmentId data of
                                     None \<Rightarrow> project_assignment_id row | Some a \<Rightarrow> a),
                                status := PENDING\<rparr>);
                       create = \<lparr>employee_id = employeeId data,
                                 date' = date data,
                                 clock_in = clockInTime,
                                 clock_out = clockOutTime,
                                 break_minutes = breakMins,
                                 normal_hours = normalHours overtimeCalculation,
                                 ot1_5_hours = ot1_5Hours overtimeCalculation,
                                 ot2_hours = ot2Hours overtimeCalculation,
                                 total_hours = totalHours overtimeCalculation,
                                 project_assignment_id =
                                   (case projectAssignmentId data of None \<Rightarrow> None | Some a \<Rightarrow> a),
                                 status = PENDING\<rparr>
                   in (case timesheet_upsert d (employeeId data, date data) upd create of
                         (row, d') \<Rightarrow> (Json_ok 200 (row, overtimePay overtimeCalculation), d'))))"

section \<open>\<^verbatim>\<open>POST /api/employees\<close>: the two creation handlers\<close>

text \<open>
  The JSON body, with the fields the two handlers read. A missing string field is the
  empty string (both are falsy), \<^verbatim>\<open>basicSalary\<close> is a number, and \<open>hourlyRate\<close> is
  whatever rate the client may have put into the body. The body's \<^verbatim>\<open>email\<close>, \<^verbatim>\<open>nric\<close>
  and \<^verbatim>\<open>companyId\<close> are primed.
\<close>

record employee_data =
  employeeCode :: string
  firstName :: string
  lastName :: string
  email' :: string
  nric' :: string
  dateOfBirth :: string
  gender :: string
  nationality :: string
  joinDate :: string
  basicSalary :: rat
  hourlyRate :: "rat option"
  companyId' :: "string option"

text \<open>\<^verbatim>\<open>String(n)\<close> for a natural number and \<^verbatim>\<open>padStart\<close>.\<close>

fun String_nat :: "nat \<Rightarrow> string" where
  "String_nat n =
     (if n < 10 then [char_of (48 + n)]
      else String_nat (n div 10) @ [char_of (48 + n mod 10)])"

declare String_nat.simps [simp del]

definition padStart :: "string \<Rightarrow> nat \<Rightarrow> char \<Rightarrow> string" where
  "padStart s n c = replicate (n - length s) c @ s"

text \<open>
  In the two handlers a JavaScript number is the rational that the double denotes, and
  the operators \<^verbatim>\<open>*\<close> and \<^verbatim>\<open>/\<close> are the exact operations followed by the rounding of the
  result to the nearest double. That rounding is the parameter \<open>fl\<close> of the handlers, so
  \<^verbatim>\<open>Number(basicSalary) * 12 / 2288\<close> is \<open>fl (fl (basicSalary * 12) / 2288)\<close>.

  \<^verbatim>\<open>Number(x.toFixed(2))\<close>, for the double \<open>x\<close>: \<^verbatim>\<open>toFixed\<close> works on the exact value of
  \<open>x\<close> and gives the nearest multiple of 1/100, a tie going away from zero.
\<close>

definition toFixed2 :: "rat \<Rightarrow> rat" where
  "toFixed2 x = sgn x * rat_of_int \<lfloor>\<bar>x\<bar> * 100 + 1 / 2\<rfloor> / 100"

text \<open>The first handler (behind \<^verbatim>\<open>verifyAuth\<close>). \<open>newId\<close> is the key the database
  gives the new row. The spread \<^verbatim>\<open>...data\<close> is overridden by \<^verbatim>\<open>hourlyRate\<close> and
  \<^verbatim>\<open>companyId\<close>. The optional creation of a user account that follows writes the users
  table only and is left out.\<close>

definition POST_employees ::
    "(rat \<Rightarrow> rat) \<Rightarrow> db \<Rightarrow> AuthUser option \<Rightarrow> string \<Rightarrow> employee_data
      \<Rightarrow> employee response \<times> db" where
  "POST_employees fl d user newId data =
     (case user of
        None \<Rightarrow> (Json_error 401 ''Unauthorized'', d)
      | Some u \<Rightarrow>
          if \<not> hasPermission user ''employees.create'' then (Json_error 401 ''Unauthorized'', d)
          else
            let hourlyRate_v = fl (fl (basicSalary data * 12) / 2288);
                count = length (filter (\<lambda>e. case companyId u of None \<Rightarrow> True
                                               | Some c \<Rightarrow> company_id e = Some c) (employees d));
                code = (if employeeCode data = []
                        then ''EMP'' @ padStart (String_nat (count + 1)) 4 CHR ''0''
                        else employeeCode data);
                row = \<lparr>emp_id = newId,
                       employee_code = code,
                       first_name = firstName data,
                       last_name = lastName data,
                       email_col = email' data,
                       nric_col = nric' data,
                       basic_salary = basicSalary data,
                       hourly_rate = hourlyRate_v,
                       company_id = (if truthy (companyId u) then companyId u
                                     else companyId' data)\<rparr>
            in (Json_ok 200 row, d\<lparr>employees := employees d @ [row]\<rparr>))"

text \<open>The second handler (no authorisation): required fields, the duplicate check on
  \<^verbatim>\<open>email\<close> or \<^verbatim>\<open>nric\<close>, then the row with the rate rounded by \<^verbatim>\<open>toFixed(2)\<close>.\<close>

definition POST_employees_2 ::
    "(rat \<Rightarrow> rat) \<Rightarrow> db \<Rightarrow> string \<Rightarrow> employee_data \<Rightarrow> employee response \<times> db" where
  "POST_employees_2 fl d newId body =
     (if firstName body = [] \<or> lastName body = [] \<or> email' body = [] \<or> nric' body = []
         \<or> dateOfBirth body = [] \<or> gender body = [] \<or> nationality body = []
         \<or> joinDate body = [] \<or> basicSalary body = 0
      then (Json_error 400 ''Missing required fields'', d)
      else
        (case find (\<lambda>e. email_col e = email' body \<or> nric_col e = nric' body) (employees d) of
           Some existingEmployee \<Rightarrow>
             (Json_error 400 ''Employee with this email or NRIC already exists'', d)
         | None \<Rightarrow>
             let employeeCount = length (employees d);
                 code = ''EMP'' @ padStart (String_nat (employeeCount + 1)) 4 CHR ''0'';
                 hourlyRate_v = fl (fl (basicSalary body * 12) / 2288);
                 row = \<lparr>emp_id = newId,
                        employee_code = code,
                        first_name = firstName body,
                        last_name = lastName body,
                        email_col = email' body,
                        nric_col = nric' body,
                        basic_salary = basicSalary body,
                        hourly_rate = toFixed2 hourlyRate_v,
                        company_id = (if truthy (companyId' body) then companyId' body
                                      else None)\<rparr>
             in (Json_ok 201 row, d\<lparr>employees := employees d @ [row]\<rparr>)))"

section \<open>The payroll period aggregator\<close>

text \<open>
  Modelled from the spec: \<^verbatim>\<open>getPayrollSummary\<close> (the Payroll Period Aggregator) has no
  code among the sources. Following the spec's contract, it takes the employee's hourly
  rate and the ledger entries, walks the entries once, and adds an entry's hours and
  pay to the running totals when the entry belongs to the employee, is APPROVED and
  its date lies in the inclusive range. The evening tier is the column
  \<^verbatim>\<open>ot1_5_hours\<close>, the night tier \<^verbatim>\<open>ot2_hours\<close>.
\<close>

record PayrollPeriodSummary =
  summaryEmployeeId :: string
  periodStart :: Date
  periodEnd :: Date
  sumNormalHours :: rat
  sumEveningHours :: rat
  sumNightHours :: rat
  pay :: rat

definition entryPay :: "rat \<Rightarrow> timesheet \<Rightarrow> rat" where
  "entryPay rate e =
     normal_hours e * rate + ot1_5_hours e * rate * (3 / 2) + ot2_hours e * rate * 2"

definition inPayroll :: "string \<Rightarrow> Date \<Rightarrow> Date \<Rightarrow> timesheet \<Rightarrow> bool" where
  "inPayroll eid startDate endDate e =
     (employee_id e = eid \<and> status e = APPROVED \<and> startDate \<le> date' e \<and> date' e \<le> endDate)"

fun addEntries :: "rat \<Rightarrow> string \<Rightarrow> Date \<Rightarrow> Date \<Rightarrow> PayrollPeriodSummary \<Rightarrow> timesheet list
    \<Rightarrow> PayrollPeriodSummary" where
  "addEntries rate eid startDate endDate acc [] = acc"
| "addEntries rate eid startDate endDate acc (e # es) =
     addEntries rate eid startDate endDate
       (if inPayroll eid startDate endDate e
        then acc\<lparr>sumNormalHours := sumNormalHours acc + normal_hours e,
                 sumEveningHours := sumEveningHours acc + ot1_5_hours e,
                 sumNightHours := sumNightHours acc + ot2_hours e,
                 pay := pay acc + entryPay rate e\<rparr>
        else acc) es"

definition getPayrollSummary ::
    "rat \<Rightarrow> timesheet list \<Rightarrow> string \<Rightarrow> Date \<Rightarrow> Date \<Rightarrow> PayrollPeriodSummary" where
  "getPayrollSummary rate entries eid startDate endDate =
     addEntries rate eid startDate endDate
       \<lparr>summaryEmployeeId = eid, periodStart = startDate, periodEnd = endDate,
        sumNormalHours = 0, sumEveningHours = 0, sumNightHours = 0, pay = 0\<rparr> entries"

section \<open>Observations and sample data\<close>

text \<open>The derived fields of a response of \<^verbatim>\<open>POST /api/timesheets\<close>: the three tier
  totals and the total of the saved row, and \<^verbatim>\<open>overtimePay\<close>.\<close>

definition derivedFields :: "(timesheet \<times> rat) response \<Rightarrow> (rat \<times> rat \<times> rat \<times> rat \<times> rat) option" where
  "derivedFields r =
     (case r of
        Json_error c m \<Rightarrow> None
      | Json_ok c v \<Rightarrow>
          Some (normal_hours (fst v), ot1_5_hours (fst v), ot2_hours (fst v),
                total_hours (fst v), snd v))"

text \<open>Clock times on day 0, in milliseconds: \<open>hm h m\<close> is \<open>h:m\<close>.\<close>

definition hm :: "int \<Rightarrow> int \<Rightarrow> Date" where
  "hm h m = h * 3600000 + m * 60000"

definition sample_user :: AuthUser where
  "sample_user = \<lparr>id' = ''u1'', email = ''hr@company.com'', name = ''HR'', companyId = None,
     roles = [''HR Manager''], permissions = [''employees.create'', ''timesheets.create'']\<rparr>"

definition sample_employee :: employee where
  "sample_employee = \<lparr>emp_id = ''E1'', employee_code = ''EMP0001'', first_name = ''Mei'',
     last_name = ''Tan'', email_col = ''mei@company.com'', nric_col = ''S1234567A'',
     basic_salary = 2288, hourly_rate = 12, company_id = Some ''default-company''\<rparr>"

text \<open>An APPROVED entry of the sample employee for day 0, 09:00 to 17:00, booked on an
  assignment of project \<open>P1\<close>.\<close>

definition sample_entry :: timesheet where
  "sample_entry = \<lparr>employee_id = ''E1'', date' = 0, clock_in = hm 9 0, clock_out = hm 17 0,
     break_minutes = 0, normal_hours = 8, ot1_5_hours = 0, ot2_hours = 0, total_hours = 8,
     project_assignment_id = Some ''A1'', status = APPROVED\<rparr>"

definition sample_db :: db where
  "sample_db = \<lparr>employees = [sample_employee],
     timesheets = [(''E1'', 0) \<mapsto> sample_entry],
     project_assignments = [''A1'' \<mapsto> ''P1''],
     projects = [''P1'' \<mapsto> \<lparr>actual_cost = Some 1000\<rparr>]\<rparr>"

definition sample_data :: "Date \<Rightarrow> Date option \<Rightarrow> rat \<Rightarrow> timesheet_data" where
  "sample_data cin cout b = \<lparr>employeeId = ''E1'', date = 0, clockIn = cin, clockOut = cout,
     breakMinutes = Some b, projectAssignmentId = None\<rparr>"

text \<open>A body with a basic salary of 2502.5: twelve times it is 30030 and the quotient by
  2288 is 13.125, both exact in doubles, and 13.125 lies halfway between two
  hundredths.\<close>

definition sample_body :: employee_data where
  "sample_body = \<lparr>employeeCode = [], firstName = ''Wei'', lastName = ''Lim'',
     email' = ''wei@company.com'', nric' = ''S7654321B'', dateOfBirth = ''1990-01-01'',
     gender = ''M'', nationality = ''Singaporean'', joinDate = ''2024-01-01'',
     basicSalary = 5005 / 2, hourlyRate = Some 999, companyId' = Some ''default-company''\<rparr>"

section \<open>The classifier in closed form\<close>

lemma forEach_body_normal:
  "forEach_body i out (n, e, g) \<lparr>p_start = s, p_end = t, p_rate = q, p_type = normal\<rparr> =
     ((if max i s < min out t then min (rat_of_int (min out t - max i s) / 3600000) 8 else n), e, g)"
  by (simp add: forEach_body_def Let_def)

lemma forEach_body_ot1_5:
  "forEach_body i out (n, e, g) \<lparr>p_start = s, p_end = t, p_rate = q, p_type = ot1_5\<rparr> =
     (n, (if max i s < min out t then e + rat_of_int (min out t - max i s) / 3600000 else e), g)"
  by (simp add: forEach_body_def Let_def)

lemma forEach_body_ot2:
  "forEach_body i out (n, e, g) \<lparr>p_start = s, p_end = t, p_rate = q, p_type = ot2\<rparr> =
     (n, e, (if max i s < min out t then g + rat_of_int (min out t - max i s) / 3600000 else g))"
  by (simp add: forEach_body_def Let_def)

lemma foldl_periods:
  "foldl (forEach_body i out) (0, 0, 0) (periods i) =
     ((if max i (setHours i 8 0 0 0) < min out (setHours i 17 0 0 0)
       then min (rat_of_int (min out (setHours i 17 0 0 0) - max i (setHours i 8 0 0 0)) / 3600000) 8
       else 0),
      (if max i (setHours i 17 0 0 0) < min out (setHours i 23 59 59 999)
       then 0 + rat_of_int (min out (setHours i 23 59 59 999) - max i (setHours i 17 0 0 0)) / 3600000
       else 0),
      (if max i (setHours i 0 0 0 0) < min out (setHours i 8 0 0 0)
       then 0 + rat_of_int (min out (setHours i 8 0 0 0) - max i (setHours i 0 0 0 0)) / 3600000
       else 0))"
  unfolding periods_def foldl.simps forEach_body_normal forEach_body_ot1_5 forEach_body_ot2 ..

lemma tier_hours:
  "max 0 (if (b::int) < a then rat_of_int (a - b) / 3600000 else 0)
     = rat_of_int (max 0 (a - b)) / 3600000"
  by (simp add: max_def)

lemma tier_hours_capped:
  "max 0 (if (b::int) < a then min (rat_of_int (a - b) / 3600000) 8 else 0)
     = min (rat_of_int (max 0 (a - b)) / 3600000) 8"
  by (simp add: max_def min_def)

lemma setHours_values:
  "setHours i 0 0 0 0 = i - i mod 86400000"
  "setHours i 8 0 0 0 = i - i mod 86400000 + 28800000"
  "setHours i 17 0 0 0 = i - i mod 86400000 + 61200000"
  "setHours i 23 59 59 999 = i - i mod 86400000 + 86399999"
  by (simp_all add: setHours_def)

lemma normalHours_raw:
  "normalHours (calculateOvertime i out r) =
     min (rat_of_int (max 0 (min out (setHours i 17 0 0 0) - max i (setHours i 8 0 0 0))) / 3600000) 8"
  unfolding calculateOvertime_def Let_def foldl_periods prod.case overtime.simps add_0
  by (rule tier_hours_capped)

lemma ot1_5Hours_raw:
  "ot1_5Hours (calculateOvertime i out r) =
     rat_of_int (max 0 (min out (setHours i 23 59 59 999) - max i (setHours i 17 0 0 0))) / 3600000"
  unfolding calculateOvertime_def Let_def foldl_periods prod.case overtime.simps add_0
  by (rule tier_hours)

lemma ot2Hours_raw:
  "ot2Hours (calculateOvertime i out r) =
     rat_of_int (max 0 (min out (setHours i 8 0 0 0) - max i (setHours i 0 0 0 0))) / 3600000"
  unfolding calculateOvertime_def Let_def foldl_periods prod.case overtime.simps add_0
  by (rule tier_hours)

lemma totalHours_raw:
  "totalHours (calculateOvertime i out r) = max 0 (rat_of_int (out - i) / 3600000)"
  unfolding calculateOvertime_def Let_def foldl_periods prod.case overtime.simps
  by simp

lemma overtimePay_raw:
  "overtimePay (calculateOvertime i out r) =
     ot1_5Hours (calculateOvertime i out r) * r * (3 / 2) + ot2Hours (calculateOvertime i out r) * r * 2"
  unfolding ot1_5Hours_raw ot2Hours_raw tier_hours[symmetric]
  unfolding calculateOvertime_def Let_def foldl_periods prod.case overtime.simps add_0
  by (simp add: max_def)

lemmas calculateOvertime_raw =
  normalHours_raw ot1_5Hours_raw ot2Hours_raw totalHours_raw

lemma adjustForBreak_fields:
  "normalHours (adjustForBreak b oc) = max 0 (normalHours oc - b / 60)"
  "ot1_5Hours (adjustForBreak b oc) = ot1_5Hours oc"
  "ot2Hours (adjustForBreak b oc) = ot2Hours oc"
  "totalHours (adjustForBreak b oc) = max 0 (totalHours oc - b / 60)"
  "overtimePay (adjustForBreak b oc) = overtimePay oc"
  by (simp_all add: adjustForBreak_def Let_def)

lemma same_day_bounds:
  assumes "out div 86400000 = i div (86400000::int)"
  shows "i - i mod 86400000 \<le> out" and "out \<le> i - i mod 86400000 + 86399999"
proof -
  have "out - out mod 86400000 = i - i mod 86400000"
    using assms by (simp add: minus_mod_eq_mult_div)
  moreover have "0 \<le> out mod 86400000" "out mod 86400000 < 86400000" by simp_all
  ultimately show "i - i mod 86400000 \<le> out" and "out \<le> i - i mod 86400000 + 86399999"
    by linarith+
qed

lemma partition_ms:
  fixes d i out :: int
  assumes "d \<le> i" "i < out" "out \<le> d + 86399999"
  shows "max 0 (min out (d + 61200000) - max i (d + 28800000))
       + max 0 (min out (d + 86399999) - max i (d + 61200000))
       + max 0 (min out (d + 28800000) - max i d) = out - i"
  using assms by linarith

lemma windows_partition:
  assumes "i < out" and "out div 86400000 = i div 86400000"
  shows "max 0 (min out (setHours i 17 0 0 0) - max i (setHours i 8 0 0 0))
       + max 0 (min out (setHours i 23 59 59 999) - max i (setHours i 17 0 0 0))
       + max 0 (min out (setHours i 8 0 0 0) - max i (setHours i 0 0 0 0)) = out - i"
proof -
  have "i - i mod 86400000 \<le> i" by simp
  then show ?thesis
    unfolding setHours_values
    using assms(1) same_day_bounds(2)[OF assms(2)] by (rule partition_ms)
qed

lemma hours_split:
  fixes T A E G :: int
  assumes "A + E + G = T"
  shows "rat_of_int A / 3600000 + rat_of_int E / 3600000 + rat_of_int G / 3600000
         = rat_of_int T / 3600000"
  unfolding assms[symmetric] by (simp add: add_divide_distrib)

lemma cap_shortfall_ms:
  "min (rat_of_int (max 0 x) / 3600000) 8 =
   rat_of_int (max 0 x) / 3600000 - max 0 (rat_of_int x / 3600000 - 8)"
  by (simp add: min_def max_def)

lemma tiers_sum:
  assumes "i < out" and "out div 86400000 = i div 86400000"
  shows "normalHours (calculateOvertime i out r) + ot1_5Hours (calculateOvertime i out r)
           + ot2Hours (calculateOvertime i out r)
         = rat_of_int (out - i) / 3600000
           - max 0 (rat_of_int (min out (setHours i 17 0 0 0) - max i (setHours i 8 0 0 0)) / 3600000 - 8)"
proof -
  define raw where "raw = min out (setHours i 17 0 0 0) - max i (setHours i 8 0 0 0)"
  define E where "E = max 0 (min out (setHours i 23 59 59 999) - max i (setHours i 17 0 0 0))"
  define G where "G = max 0 (min out (setHours i 8 0 0 0) - max i (setHours i 0 0 0 0))"
  define M where "M = max 0 (rat_of_int raw / 3600000 - 8)"
  have "max 0 raw + E + G = out - i"
    unfolding raw_def E_def G_def using assms by (rule windows_partition)
  then have "rat_of_int (max 0 raw) / 3600000 + rat_of_int E / 3600000 + rat_of_int G / 3600000
      = rat_of_int (out - i) / 3600000"
    by (rule hours_split)
  then have "(rat_of_int (max 0 raw) / 3600000 - M) + rat_of_int E / 3600000 + rat_of_int G / 3600000
      = rat_of_int (out - i) / 3600000 - M"
    by simp
  then show ?thesis
    unfolding normalHours_raw ot1_5Hours_raw ot2Hours_raw cap_shortfall_ms
    unfolding raw_def[symmetric] E_def[symmetric] G_def[symmetric] M_def[symmetric] .
qed

lemma normal_window_at_most_9:
  "rat_of_int (min out (setHours i 17 0 0 0) - max i (setHours i 8 0 0 0)) / 3600000 \<le> 9"
proof -
  have "min out (setHours i 17 0 0 0) - max i (setHours i 8 0 0 0) \<le> 32400000"
    unfolding setHours_values by linarith
  then have "rat_of_int (min out (setHours i 17 0 0 0) - max i (setHours i 8 0 0 0))
      \<le> rat_of_int 32400000"
    by (simp only: of_int_le_iff)
  then show ?thesis by simp
qed

lemma tiers_nonneg:
  "0 \<le> normalHours (calculateOvertime i out r)"
  "0 \<le> ot1_5Hours (calculateOvertime i out r)"
  "0 \<le> ot2Hours (calculateOvertime i out r)"
  unfolding calculateOvertime_raw by simp_all



section \<open>The handler of \<^verbatim>\<open>POST /api/timesheets\<close> on accepted requests\<close>

lemma trigger_keeps_timesheets:
  "timesheets (update_project_actual_cost d OLD NEW) = timesheets d"
  by (simp add: update_project_actual_cost_def split: option.splits)

lemma trigger_keeps_employees:
  "employees (update_project_actual_cost d OLD NEW) = employees d"
  by (simp add: update_project_actual_cost_def split: option.splits)

lemma trigger_idle:
  "\<not> (status NEW = APPROVED \<and> status OLD \<noteq> APPROVED) \<Longrightarrow> update_project_actual_cost d OLD NEW = d"
  unfolding update_project_actual_cost_def by (rule if_not_P)

lemma upsert_stores:
  "timesheets (snd (timesheet_upsert d key upd create)) key = Some (fst (timesheet_upsert d key upd create))"
  by (simp add: timesheet_upsert_def timesheet_update_def trigger_keeps_timesheets
      split: option.splits)

lemma upsert_keeps_employees:
  "employees (snd (timesheet_upsert d key upd create)) = employees d"
  by (simp add: timesheet_upsert_def timesheet_update_def trigger_keeps_employees
      split: option.splits)

lemma upsert_row:
  "fst (timesheet_upsert d key upd create) =
     (case timesheets d key of None \<Rightarrow> create | Some OLD \<Rightarrow> upd OLD)"
  by (simp add: timesheet_upsert_def split: option.splits)

text \<open>A request is accepted when the caller may create timesheets, the employee exists,
  and the caller's company, if any, is the employee's.\<close>

lemma POST_timesheets_accepted:
  fixes d :: db and u :: AuthUser and now :: Date and data :: timesheet_data and emp :: employee
  assumes "hasPermission (Some u) ''timesheets.create''"
    and "find (\<lambda>e. emp_id e = employeeId data) (employees d) = Some emp"
    and "\<not> (truthy (companyId u) \<and> company_id emp \<noteq> companyId u)"
  defines "cout \<equiv> (case clockOut data of Some t \<Rightarrow> t | None \<Rightarrow> now)"
    and "b \<equiv> (case breakMinutes data of Some b \<Rightarrow> b | None \<Rightarrow> 0)"
  defines "oc \<equiv> adjustForBreak b (calculateOvertime (clockIn data) cout (hourly_rate emp))"
  shows "\<exists>row. fst (POST_timesheets d (Some u) now data) = Json_ok 200 (row, overtimePay oc)
           \<and> timesheets (snd (POST_timesheets d (Some u) now data)) (employeeId data, date data)
               = Some row
           \<and> clock_in row = clockIn data \<and> clock_out row = cout \<and> break_minutes row = b
           \<and> normal_hours row = normalHours oc \<and> ot1_5_hours row = ot1_5Hours oc
           \<and> ot2_hours row = ot2Hours oc \<and> total_hours row = totalHours oc
           \<and> status row = PENDING"
proof -
  let ?upd = "\<lambda>row. row\<lparr>clock_in := clockIn data, clock_out := cout, break_minutes := b,
      normal_hours := normalHours oc, ot1_5_hours := ot1_5Hours oc, ot2_hours := ot2Hours oc,
      total_hours := totalHours oc,
      project_assignment_id :=
        (case projectAssignmentId data of None \<Rightarrow> project_assignment_id row | Some a \<Rightarrow> a),
      status := PENDING\<rparr>"
  let ?create = "\<lparr>employee_id = employeeId data, date' = date data, clock_in = clockIn data,
      clock_out = cout, break_minutes = b, normal_hours = normalHours oc,
      ot1_5_hours = ot1_5Hours oc, ot2_hours = ot2Hours oc, total_hours = totalHours oc,
      project_assignment_id = (case projectAssignmentId data of None \<Rightarrow> None | Some a \<Rightarrow> a),
      status = PENDING\<rparr>"
  let ?up = "timesheet_upsert d (employeeId data, date data) ?upd ?create"
  have post: "POST_timesheets d (Some u) now data = (Json_ok 200 (fst ?up, overtimePay oc), snd ?up)"
    using assms(1,2,3)
    by (simp add: POST_timesheets_def Let_def cout_def b_def oc_def split: prod.splits)
  have row: "fst ?up = (case timesheets d (employeeId data, date data) of
      None \<Rightarrow> ?create | Some OLD \<Rightarrow> ?upd OLD)"
    by (rule upsert_row)
  have stored: "timesheets (snd ?up) (employeeId data, date data) = Some (fst ?up)"
    by (rule upsert_stores)
  have fields: "clock_in (fst ?up) = clockIn data \<and> clock_out (fst ?up) = cout
      \<and> break_minutes (fst ?up) = b
      \<and> normal_hours (fst ?up) = normalHours oc \<and> ot1_5_hours (fst ?up) = ot1_5Hours oc
      \<and> ot2_hours (fst ?up) = ot2Hours oc \<and> total_hours (fst ?up) = totalHours oc
      \<and> status (fst ?up) = PENDING"
    unfolding row by (simp split: option.splits)
  show ?thesis
    unfolding post fst_conv snd_conv using stored fields by blast
qed

lemma POST_timesheets_existing:
  fixes d :: db and u :: AuthUser and now :: Date and data :: timesheet_data and emp :: employee
  assumes "hasPermission (Some u) ''timesheets.create''"
    and "find (\<lambda>e. emp_id e = employeeId data) (employees d) = Some emp"
    and "\<not> (truthy (companyId u) \<and> company_id emp \<noteq> companyId u)"
    and "timesheets d (employeeId data, date data) = Some old"
  defines "cout \<equiv> (case clockOut data of Some t \<Rightarrow> t | None \<Rightarrow> now)"
    and "b \<equiv> (case breakMinutes data of Some b \<Rightarrow> b | None \<Rightarrow> 0)"
  defines "oc \<equiv> adjustForBreak b (calculateOvertime (clockIn data) cout (hourly_rate emp))"
  defines "new \<equiv> old\<lparr>clock_in := clockIn data, clock_out := cout, break_minutes := b,
      normal_hours := normalHours oc, ot1_5_hours := ot1_5Hours oc, ot2_hours := ot2Hours oc,
      total_hours := totalHours oc,
      project_assignment_id :=
        (case projectAssignmentId data of None \<Rightarrow> project_assignment_id old | Some a \<Rightarrow> a),
      status := PENDING\<rparr>"
  shows "POST_timesheets d (Some u) now data
           = (Json_ok 200 (new, overtimePay oc),
              d\<lparr>timesheets := (timesheets d)((employeeId data, date data) \<mapsto> new)\<rparr>)"
proof -
  have idle: "update_project_actual_cost
      (d\<lparr>timesheets := (timesheets d)((employeeId data, date data) \<mapsto> new)\<rparr>) old new
    = d\<lparr>timesheets := (timesheets d)((employeeId data, date data) \<mapsto> new)\<rparr>"
    by (rule trigger_idle) (simp add: new_def)
  show ?thesis
    using assms(1-4) idle
    by (simp add: POST_timesheets_def Let_def timesheet_upsert_def timesheet_update_def
        cout_def b_def oc_def new_def)
qed

lemma POST_timesheets_fresh:
  fixes d :: db and u :: AuthUser and now :: Date and data :: timesheet_data and emp :: employee
  assumes "hasPermission (Some u) ''timesheets.create''"
    and "find (\<lambda>e. emp_id e = employeeId data) (employees d) = Some emp"
    and "\<not> (truthy (companyId u) \<and> company_id emp \<noteq> companyId u)"
    and "timesheets d (employeeId data, date data) = None"
  defines "cout \<equiv> (case clockOut data of Some t \<Rightarrow> t | None \<Rightarrow> now)"
    and "b \<equiv> (case breakMinutes data of Some b \<Rightarrow> b | None \<Rightarrow> 0)"
  defines "oc \<equiv> adjustForBreak b (calculateOvertime (clockIn data) cout (hourly_rate emp))"
  defines "new \<equiv> \<lparr>employee_id = employeeId data, date' = date data, clock_in = clockIn data,
      clock_out = cout, break_minutes = b, normal_hours = normalHours oc,
      ot1_5_hours = ot1_5Hours oc, ot2_hours = ot2Hours oc, total_hours = totalHours oc,
      project_assignment_id = (case projectAssignmentId data of None \<Rightarrow> None | Some a \<Rightarrow> a),
      status = PENDING\<rparr>"
  shows "POST_timesheets d (Some u) now data
           = (Json_ok 200 (new, overtimePay oc),
              d\<lparr>timesheets := (timesheets d)((employeeId data, date data) \<mapsto> new)\<rparr>)"
  using assms(1-4)
  by (simp add: POST_timesheets_def Let_def timesheet_upsert_def cout_def b_def oc_def new_def)

text \<open>The sample user may submit for the sample employee, whatever the ledger holds.\<close>

lemma sample_checks:
  "hasPermission (Some sample_user) ''timesheets.create''"
  "find (\<lambda>e. emp_id e = employeeId (sample_data cin cout b))
     (employees (sample_db\<lparr>timesheets := ts\<rparr>)) = Some sample_employee"
  "find (\<lambda>e. emp_id e = employeeId (sample_data cin cout b)) (employees sample_db)
     = Some sample_employee"
  "\<not> (truthy (companyId sample_user) \<and> company_id sample_employee \<noteq> companyId sample_user)"
  by (simp_all add: hasPermission_def truthy_def sample_user_def sample_db_def
      sample_employee_def sample_data_def)

lemma sample_data_fields:
  "employeeId (sample_data cin cout b) = ''E1''"
  "date (sample_data cin cout b) = 0"
  "clockIn (sample_data cin cout b) = cin"
  "clockOut (sample_data cin cout b) = cout"
  "breakMinutes (sample_data cin cout b) = Some b"
  "projectAssignmentId (sample_data cin cout b) = None"
  by (simp_all add: sample_data_def)

lemma sample_db_fields:
  "timesheets sample_db (''E1'', 0) = Some sample_entry"
  "hourly_rate sample_employee = 12"
  "status sample_entry = APPROVED"
  by (simp_all add: sample_db_def sample_employee_def sample_entry_def)

lemmas classifier_defs =
  adjustForBreak_def calculateOvertime_def periods_def forEach_body_def setHours_def Let_def
  hm_def

section \<open>Resubmission against an APPROVED entry\<close>

text \<open>
  Claim C1. As stated (a submission whose key matches an APPROVED entry fails with
  ConflictError and leaves the entry unchanged) it does not hold: the handler has no
  status check. The sample entry is APPROVED; a submission for the same employee and
  date is answered with 200, and the entry is overwritten and PENDING.
\<close>

theorem approved_resubmission_counterexample:
  "map_option status (timesheets sample_db (''E1'', 0)) = Some APPROVED
   \<and> fst (POST_timesheets sample_db (Some sample_user) 0
            (sample_data (hm 9 0) (Some (hm 19 0)) 60))
       = Json_ok 200
          (sample_entry\<lparr>clock_in := hm 9 0, clock_out := hm 19 0, break_minutes := 60,
             normal_hours := 7, ot1_5_hours := 2, ot2_hours := 0, total_hours := 9,
             status := PENDING\<rparr>, 36)
   \<and> map_option status
        (timesheets (snd (POST_timesheets sample_db (Some sample_user) 0
            (sample_data (hm 9 0) (Some (hm 19 0)) 60))) (''E1'', 0)) = Some PENDING"
proof -
  have oc: "adjustForBreak 60 (calculateOvertime (hm 9 0) (hm 19 0) 12)
      = \<lparr>normalHours = 7, ot1_5Hours = 2, ot2Hours = 0, totalHours = 9, overtimePay = 36\<rparr>"
    by (simp add: classifier_defs)
  have "timesheets sample_db
      (employeeId (sample_data (hm 9 0) (Some (hm 19 0)) 60),
       date (sample_data (hm 9 0) (Some (hm 19 0)) 60)) = Some sample_entry"
    by (simp add: sample_data_fields sample_db_fields)
  from POST_timesheets_existing [OF sample_checks(1) sample_checks(3) sample_checks(4) this, of 0]
  show ?thesis
    by (simp add: sample_data_fields sample_db_fields oc)
qed

text \<open>
  Claim C1, amended: an accepted submission whose key matches an APPROVED entry
  succeeds. The entry keeps its key and, when the body names no assignment, its
  assignment; its clock, break and hour fields are overwritten with the values derived
  from the submission, and its status is reset to PENDING.
\<close>

theorem approved_resubmission_overwrites:
  fixes d :: db and u :: AuthUser and now :: Date and data :: timesheet_data and emp :: employee
  assumes "hasPermission (Some u) ''timesheets.create''"
    and "find (\<lambda>e. emp_id e = employeeId data) (employees d) = Some emp"
    and "\<not> (truthy (companyId u) \<and> company_id emp \<noteq> companyId u)"
    and "timesheets d (employeeId data, date data) = Some old"
    and "status old = APPROVED"
  defines "cout \<equiv> (case clockOut data of Some t \<Rightarrow> t | None \<Rightarrow> now)"
    and "b \<equiv> (case breakMinutes data of Some b \<Rightarrow> b | None \<Rightarrow> 0)"
  defines "oc \<equiv> adjustForBreak b (calculateOvertime (clockIn data) cout (hourly_rate emp))"
  defines "new \<equiv> old\<lparr>clock_in := clockIn data, clock_out := cout, break_minutes := b,
      normal_hours := normalHours oc, ot1_5_hours := ot1_5Hours oc, ot2_hours := ot2Hours oc,
      total_hours := totalHours oc,
      project_assignment_id :=
        (case projectAssignmentId data of None \<Rightarrow> project_assignment_id old | Some a \<Rightarrow> a),
      status := PENDING\<rparr>"
  shows "fst (POST_timesheets d (Some u) now data) = Json_ok 200 (new, overtimePay oc)
         \<and> timesheets (snd (POST_timesheets d (Some u) now data)) (employeeId data, date data)
             = Some new
         \<and> status new = PENDING"
  unfolding new_def oc_def b_def cout_def
  by (simp add: POST_timesheets_existing [OF assms(1-4)])

theorem approved_resubmission_overwrites_witness:
  "fst (POST_timesheets sample_db (Some sample_user) 0
          (sample_data (hm 9 0) (Some (hm 19 0)) 60))
     = Json_ok 200
         (sample_entry\<lparr>clock_in := hm 9 0, clock_out := hm 19 0, break_minutes := 60,
            normal_hours := 7, ot1_5_hours := 2, ot2_hours := 0, total_hours := 9,
            status := PENDING\<rparr>, 36)"
proof -
  let ?data = "sample_data (hm 9 0) (Some (hm 19 0)) 60"
  have h4: "timesheets sample_db (employeeId ?data, date ?data) = Some sample_entry"
    by (simp add: sample_data_fields sample_db_fields)
  have h5: "status sample_entry = APPROVED"
    by (simp add: sample_db_fields)
  have oc: "adjustForBreak 60 (calculateOvertime (hm 9 0) (hm 19 0) 12)
      = \<lparr>normalHours = 7, ot1_5Hours = 2, ot2Hours = 0, totalHours = 9, overtimePay = 36\<rparr>"
    by (simp add: classifier_defs)
  show ?thesis
    using approved_resubmission_overwrites
      [OF sample_checks(1) sample_checks(3) sample_checks(4) h4 h5, of 0]
    by (simp add: oc sample_data_fields sample_db_fields)
qed

section \<open>Malformed intervals\<close>

lemma unordered_interval_tiers:
  assumes "out \<le> i"
  shows "normalHours (calculateOvertime i out r) = 0"
    and "ot1_5Hours (calculateOvertime i out r) = 0"
    and "ot2Hours (calculateOvertime i out r) = 0"
    and "totalHours (calculateOvertime i out r) = 0"
proof -
  have "min out a - max i c \<le> 0" for a c :: int
    using assms by linarith
  then have z: "max 0 (min out a - max i c) = 0" for a c :: int
    by (rule max_absorb1)
  show "normalHours (calculateOvertime i out r) = 0"
    and "ot1_5Hours (calculateOvertime i out r) = 0"
    and "ot2Hours (calculateOvertime i out r) = 0"
    unfolding calculateOvertime_raw z by simp_all
  have "rat_of_int (out - i) / 3600000 \<le> 0"
    using assms by (simp add: divide_le_0_iff)
  then show "totalHours (calculateOvertime i out r) = 0"
    unfolding totalHours_raw by (simp add: max_def)
qed

lemma normalHours_le_elapsed:
  assumes "i < out"
  shows "normalHours (calculateOvertime i out r) \<le> rat_of_int (out - i) / 3600000"
proof -
  have "max 0 (min out a - max i c) \<le> out - i" for a c :: int
    using assms by linarith
  then have "rat_of_int (max 0 (min out a - max i c)) / 3600000 \<le> rat_of_int (out - i) / 3600000"
    for a c :: int
    by (simp only: of_int_le_iff divide_le_cancel) simp
  then show ?thesis
    unfolding normalHours_raw by (rule min.coboundedI1)
qed

text \<open>
  Claim C3. As stated (an interval whose clockOut does not follow clockIn, or whose
  break exceeds the elapsed minutes, is rejected with ValidationError before any write)
  it does not hold: the handler validates nothing. With an empty ledger, a submission
  from 17:00 back to 09:00 is answered with 200 and a row of zero hours is created, and
  so is one from 09:00 to 10:00 with a break of 90 minutes.
\<close>

theorem malformed_interval_counterexample:
  "timesheets (sample_db\<lparr>timesheets := Map.empty\<rparr>) (''E1'', 0) = None
   \<and> POST_timesheets (sample_db\<lparr>timesheets := Map.empty\<rparr>) (Some sample_user) 0
        (sample_data (hm 17 0) (Some (hm 9 0)) 0)
       = (Json_ok 200
            (\<lparr>employee_id = ''E1'', date' = 0, clock_in = hm 17 0, clock_out = hm 9 0,
              break_minutes = 0, normal_hours = 0, ot1_5_hours = 0, ot2_hours = 0,
              total_hours = 0, project_assignment_id = None, status = PENDING\<rparr>, 0),
          sample_db\<lparr>timesheets := [(''E1'', 0) \<mapsto>
             \<lparr>employee_id = ''E1'', date' = 0, clock_in = hm 17 0, clock_out = hm 9 0,
              break_minutes = 0, normal_hours = 0, ot1_5_hours = 0, ot2_hours = 0,
              total_hours = 0, project_assignment_id = None, status = PENDING\<rparr>]\<rparr>)
   \<and> POST_timesheets (sample_db\<lparr>timesheets := Map.empty\<rparr>) (Some sample_user) 0
        (sample_data (hm 9 0) (Some (hm 10 0)) 90)
       = (Json_ok 200
            (\<lparr>employee_id = ''E1'', date' = 0, clock_in = hm 9 0, clock_out = hm 10 0,
              break_minutes = 90, normal_hours = 0, ot1_5_hours = 0, ot2_hours = 0,
              total_hours = 0, project_assignment_id = None, status = PENDING\<rparr>, 0),
          sample_db\<lparr>timesheets := [(''E1'', 0) \<mapsto>
             \<lparr>employee_id = ''E1'', date' = 0, clock_in = hm 9 0, clock_out = hm 10 0,
              break_minutes = 90, normal_hours = 0, ot1_5_hours = 0, ot2_hours = 0,
              total_hours = 0, project_assignment_id = None, status = PENDING\<rparr>]\<rparr>)"
proof -
  let ?d = "sample_db\<lparr>timesheets := Map.empty\<rparr>"
  have none: "timesheets ?d (employeeId (sample_data cin cout b), date (sample_data cin cout b))
      = None" for cin cout b
    by simp
  have oc1: "adjustForBreak 0 (calculateOvertime (hm 17 0) (hm 9 0) 12)
      = \<lparr>normalHours = 0, ot1_5Hours = 0, ot2Hours = 0, totalHours = 0, overtimePay = 0\<rparr>"
    by (simp add: classifier_defs)
  have oc2: "adjustForBreak 90 (calculateOvertime (hm 9 0) (hm 10 0) 12)
      = \<lparr>normalHours = 0, ot1_5Hours = 0, ot2Hours = 0, totalHours = 0, overtimePay = 0\<rparr>"
    by (simp add: classifier_defs)
  have p1: "POST_timesheets ?d (Some sample_user) 0 (sample_data (hm 17 0) (Some (hm 9 0)) 0)
      = (Json_ok 200
            (\<lparr>employee_id = ''E1'', date' = 0, clock_in = hm 17 0, clock_out = hm 9 0,
              break_minutes = 0, normal_hours = 0, ot1_5_hours = 0, ot2_hours = 0,
              total_hours = 0, project_assignment_id = None, status = PENDING\<rparr>, 0),
          sample_db\<lparr>timesheets := [(''E1'', 0) \<mapsto>
             \<lparr>employee_id = ''E1'', date' = 0, clock_in = hm 17 0, clock_out = hm 9 0,
              break_minutes = 0, normal_hours = 0, ot1_5_hours = 0, ot2_hours = 0,
              total_hours = 0, project_assignment_id = None, status = PENDING\<rparr>]\<rparr>)"
    using POST_timesheets_fresh [OF sample_checks(1) sample_checks(2) sample_checks(4) none, of 0]
    by (simp add: sample_data_fields sample_db_fields oc1)
  have p2: "POST_timesheets ?d (Some sample_user) 0 (sample_data (hm 9 0) (Some (hm 10 0)) 90)
      = (Json_ok 200
            (\<lparr>employee_id = ''E1'', date' = 0, clock_in = hm 9 0, clock_out = hm 10 0,
              break_minutes = 90, normal_hours = 0, ot1_5_hours = 0, ot2_hours = 0,
              total_hours = 0, project_assignment_id = None, status = PENDING\<rparr>, 0),
          sample_db\<lparr>timesheets := [(''E1'', 0) \<mapsto>
             \<lparr>employee_id = ''E1'', date' = 0, clock_in = hm 9 0, clock_out = hm 10 0,
              break_minutes = 90, normal_hours = 0, ot1_5_hours = 0, ot2_hours = 0,
              total_hours = 0, project_assignment_id = None, status = PENDING\<rparr>]\<rparr>)"
    using POST_timesheets_fresh [OF sample_checks(1) sample_checks(2) sample_checks(4) none, of 0]
    by (simp add: sample_data_fields sample_db_fields oc2)
  show ?thesis
    using p1 p2 by simp
qed

text \<open>
  Claim C3, amended: an accepted submission is never rejected for its interval; the row
  is written with status PENDING. When clockOut does not follow clockIn (and the break
  is not negative) the three tier totals and the total of the row are 0; when the
  break exceeds the elapsed minutes of an ordered interval, the normal hours and the
  total of the row are 0.
\<close>

theorem malformed_interval_is_saved:
  fixes d :: db and u :: AuthUser and now :: Date and data :: timesheet_data and emp :: employee
  assumes "hasPermission (Some u) ''timesheets.create''"
    and "find (\<lambda>e. emp_id e = employeeId data) (employees d) = Some emp"
    and "\<not> (truthy (companyId u) \<and> company_id emp \<noteq> companyId u)"
  defines "cout \<equiv> (case clockOut data of Some t \<Rightarrow> t | None \<Rightarrow> now)"
    and "b \<equiv> (case breakMinutes data of Some b \<Rightarrow> b | None \<Rightarrow> 0)"
  shows "\<exists>row pay. fst (POST_timesheets d (Some u) now data) = Json_ok 200 (row, pay)
           \<and> timesheets (snd (POST_timesheets d (Some u) now data)) (employeeId data, date data)
               = Some row
           \<and> status row = PENDING
           \<and> (cout \<le> clockIn data \<and> 0 \<le> b \<longrightarrow>
                normal_hours row = 0 \<and> ot1_5_hours row = 0 \<and> ot2_hours row = 0
                \<and> total_hours row = 0)
           \<and> (clockIn data < cout \<and> rat_of_int (cout - clockIn data) / 60000 < b \<longrightarrow>
                normal_hours row = 0 \<and> total_hours row = 0)"
proof -
  define oc where "oc = adjustForBreak b (calculateOvertime (clockIn data) cout (hourly_rate emp))"
  from POST_timesheets_accepted [OF assms(1-3), of now]
  obtain row where row: "fst (POST_timesheets d (Some u) now data) = Json_ok 200 (row, overtimePay oc)"
      "timesheets (snd (POST_timesheets d (Some u) now data)) (employeeId data, date data) = Some row"
      "normal_hours row = normalHours oc" "ot1_5_hours row = ot1_5Hours oc"
      "ot2_hours row = ot2Hours oc" "total_hours row = totalHours oc" "status row = PENDING"
    unfolding oc_def b_def cout_def by blast
  have unordered: "normalHours oc = 0 \<and> ot1_5Hours oc = 0 \<and> ot2Hours oc = 0 \<and> totalHours oc = 0"
    if "cout \<le> clockIn data" "0 \<le> b"
    unfolding oc_def adjustForBreak_fields unordered_interval_tiers [OF that(1)]
    using that(2) by simp
  have long_break: "normalHours oc = 0 \<and> totalHours oc = 0"
    if lt: "clockIn data < cout" and br: "rat_of_int (cout - clockIn data) / 60000 < b"
  proof -
    have "rat_of_int (cout - clockIn data) / 3600000 < b / 60"
      using br by (simp add: field_simps)
    moreover note normalHours_le_elapsed [OF lt, of "hourly_rate emp"]
    moreover have "totalHours (calculateOvertime (clockIn data) cout (hourly_rate emp))
        = rat_of_int (cout - clockIn data) / 3600000"
      unfolding totalHours_raw using lt by simp
    ultimately show ?thesis
      unfolding oc_def adjustForBreak_fields by (simp add: max_def)
  qed
  show ?thesis
    using row unordered long_break by auto
qed

theorem malformed_interval_is_saved_witness:
  "(\<exists>row pay. fst (POST_timesheets sample_db (Some sample_user) 0
                  (sample_data (hm 17 0) (Some (hm 9 0)) 0)) = Json_ok 200 (row, pay)
     \<and> timesheets (snd (POST_timesheets sample_db (Some sample_user) 0
                  (sample_data (hm 17 0) (Some (hm 9 0)) 0))) (''E1'', 0) = Some row
     \<and> status row = PENDING
     \<and> normal_hours row = 0 \<and> ot1_5_hours row = 0 \<and> ot2_hours row = 0 \<and> total_hours row = 0)
   \<and> (\<exists>row pay. fst (POST_timesheets sample_db (Some sample_user) 0
                  (sample_data (hm 9 0) (Some (hm 10 0)) 90)) = Json_ok 200 (row, pay)
     \<and> timesheets (snd (POST_timesheets sample_db (Some sample_user) 0
                  (sample_data (hm 9 0) (Some (hm 10 0)) 90))) (''E1'', 0) = Some row
     \<and> status row = PENDING
     \<and> normal_hours row = 0 \<and> total_hours row = 0)"
proof
  show "\<exists>row pay. fst (POST_timesheets sample_db (Some sample_user) 0
                  (sample_data (hm 17 0) (Some (hm 9 0)) 0)) = Json_ok 200 (row, pay)
     \<and> timesheets (snd (POST_timesheets sample_db (Some sample_user) 0
                  (sample_data (hm 17 0) (Some (hm 9 0)) 0))) (''E1'', 0) = Some row
     \<and> status row = PENDING
     \<and> normal_hours row = 0 \<and> ot1_5_hours row = 0 \<and> ot2_hours row = 0 \<and> total_hours row = 0"
    using malformed_interval_is_saved
      [OF sample_checks(1) sample_checks(3) [of "hm 17 0" "Some (hm 9 0)" 0] sample_checks(4), of 0]
    by (simp add: sample_data_fields hm_def)
  show "\<exists>row pay. fst (POST_timesheets sample_db (Some sample_user) 0
                  (sample_data (hm 9 0) (Some (hm 10 0)) 90)) = Json_ok 200 (row, pay)
     \<and> timesheets (snd (POST_timesheets sample_db (Some sample_user) 0
                  (sample_data (hm 9 0) (Some (hm 10 0)) 90))) (''E1'', 0) = Some row
     \<and> status row = PENDING
     \<and> normal_hours row = 0 \<and> total_hours row = 0"
    using malformed_interval_is_saved
      [OF sample_checks(1) sample_checks(3) [of "hm 9 0" "Some (hm 10 0)" 90] sample_checks(4), of 0]
    by (simp add: sample_data_fields hm_def)
qed

section \<open>The break deduction\<close>

text \<open>
  Claim C4. As stated (the part of the break that the NORMAL bucket cannot absorb is
  subtracted from EVENING, then from NIGHT) it does not hold: the handler assigns
  \<^verbatim>\<open>normalHours\<close> and \<^verbatim>\<open>totalHours\<close> only. From 16:00 to 20:00 the classifier gives 1
  normal and 3 evening hours; with a break of 120 minutes the saved row has 0 normal
  hours and still 3 evening hours (the claim gives 2), while its total is 2.
\<close>

theorem break_remainder_counterexample:
  "normalHours (calculateOvertime (hm 16 0) (hm 20 0) 12) = 1
   \<and> ot1_5Hours (calculateOvertime (hm 16 0) (hm 20 0) 12) = 3
   \<and> fst (POST_timesheets (sample_db\<lparr>timesheets := Map.empty\<rparr>) (Some sample_user) 0
        (sample_data (hm 16 0) (Some (hm 20 0)) 120))
       = Json_ok 200
            (\<lparr>employee_id = ''E1'', date' = 0, clock_in = hm 16 0, clock_out = hm 20 0,
              break_minutes = 120, normal_hours = 0, ot1_5_hours = 3, ot2_hours = 0,
              total_hours = 2, project_assignment_id = None, status = PENDING\<rparr>, 54)"
proof -
  let ?d = "sample_db\<lparr>timesheets := Map.empty\<rparr>"
  have none: "timesheets ?d (employeeId (sample_data cin cout b), date (sample_data cin cout b))
      = None" for cin cout b
    by simp
  have raw: "calculateOvertime (hm 16 0) (hm 20 0) 12
      = \<lparr>normalHours = 1, ot1_5Hours = 3, ot2Hours = 0, totalHours = 4, overtimePay = 54\<rparr>"
    by (simp add: classifier_defs)
  have oc: "adjustForBreak 120 (calculateOvertime (hm 16 0) (hm 20 0) 12)
      = \<lparr>normalHours = 0, ot1_5Hours = 3, ot2Hours = 0, totalHours = 2, overtimePay = 54\<rparr>"
    unfolding raw by (simp add: adjustForBreak_def Let_def)
  have "fst (POST_timesheets ?d (Some sample_user) 0 (sample_data (hm 16 0) (Some (hm 20 0)) 120))
      = Json_ok 200
            (\<lparr>employee_id = ''E1'', date' = 0, clock_in = hm 16 0, clock_out = hm 20 0,
              break_minutes = 120, normal_hours = 0, ot1_5_hours = 3, ot2_hours = 0,
              total_hours = 2, project_assignment_id = None, status = PENDING\<rparr>, 54)"
    using POST_timesheets_fresh [OF sample_checks(1) sample_checks(2) sample_checks(4) none, of 0]
    by (simp add: sample_data_fields sample_db_fields oc)
  then show ?thesis
    unfolding raw by simp
qed

text \<open>
  Claim C4, amended: for every accepted submission with break minutes \<open>b\<close>, the saved
  normal hours are the classifier's normal hours less \<open>b/60\<close>, clamped at zero, and the
  saved total is the elapsed hours less \<open>b/60\<close>, clamped at zero; the evening and night
  hours and the overtime pay are the classifier's, whatever the break. In particular,
  on any day, 09:00 to 19:00 with a break of 60 minutes gives 7 normal hours, 2 evening
  hours, a total of 9 and an overtime pay of 2 \<times> rate \<times> 1.5.
\<close>

theorem break_deduction:
  fixes d :: db and u :: AuthUser and now :: Date and data :: timesheet_data and emp :: employee
  assumes "hasPermission (Some u) ''timesheets.create''"
    and "find (\<lambda>e. emp_id e = employeeId data) (employees d) = Some emp"
    and "\<not> (truthy (companyId u) \<and> company_id emp \<noteq> companyId u)"
  defines "cout \<equiv> (case clockOut data of Some t \<Rightarrow> t | None \<Rightarrow> now)"
    and "b \<equiv> (case breakMinutes data of Some b \<Rightarrow> b | None \<Rightarrow> 0)"
  defines "raw \<equiv> calculateOvertime (clockIn data) cout (hourly_rate emp)"
  shows "(\<exists>row. fst (POST_timesheets d (Some u) now data) = Json_ok 200 (row, overtimePay raw)
           \<and> timesheets (snd (POST_timesheets d (Some u) now data)) (employeeId data, date data)
               = Some row
           \<and> normal_hours row = max 0 (normalHours raw - b / 60)
           \<and> ot1_5_hours row = ot1_5Hours raw
           \<and> ot2_hours row = ot2Hours raw
           \<and> total_hours row = max 0 (totalHours raw - b / 60))
         \<and> (\<forall>day rate. adjustForBreak 60
               (calculateOvertime (day * 86400000 + hm 9 0) (day * 86400000 + hm 19 0) rate)
              = \<lparr>normalHours = 7, ot1_5Hours = 2, ot2Hours = 0, totalHours = 9,
                 overtimePay = 2 * rate * (3 / 2)\<rparr>)"
proof
  from POST_timesheets_accepted [OF assms(1-3), of now]
  show "\<exists>row. fst (POST_timesheets d (Some u) now data) = Json_ok 200 (row, overtimePay raw)
           \<and> timesheets (snd (POST_timesheets d (Some u) now data)) (employeeId data, date data)
               = Some row
           \<and> normal_hours row = max 0 (normalHours raw - b / 60)
           \<and> ot1_5_hours row = ot1_5Hours raw
           \<and> ot2_hours row = ot2Hours raw
           \<and> total_hours row = max 0 (totalHours raw - b / 60)"
    unfolding adjustForBreak_fields raw_def b_def cout_def by blast
  show "\<forall>day rate. adjustForBreak 60
               (calculateOvertime (day * 86400000 + hm 9 0) (day * 86400000 + hm 19 0) rate)
              = \<lparr>normalHours = 7, ot1_5Hours = 2, ot2Hours = 0, totalHours = 9,
                 overtimePay = 2 * rate * (3 / 2)\<rparr>"
    by (simp add: classifier_defs)
qed

theorem break_deduction_witness:
  "\<exists>row. fst (POST_timesheets sample_db (Some sample_user) 0
             (sample_data (hm 9 0) (Some (hm 19 0)) 60)) = Json_ok 200 (row, 36)
     \<and> timesheets (snd (POST_timesheets sample_db (Some sample_user) 0
             (sample_data (hm 9 0) (Some (hm 19 0)) 60))) (''E1'', 0) = Some row
     \<and> normal_hours row = 7 \<and> ot1_5_hours row = 2 \<and> ot2_hours row = 0 \<and> total_hours row = 9"
proof -
  have raw: "calculateOvertime (hm 9 0) (hm 19 0) 12
      = \<lparr>normalHours = 8, ot1_5Hours = 2, ot2Hours = 0, totalHours = 10, overtimePay = 36\<rparr>"
    by (simp add: classifier_defs)
  show ?thesis
    using break_deduction
      [OF sample_checks(1) sample_checks(3) [of "hm 9 0" "Some (hm 19 0)" 60] sample_checks(4), of 0]
    by (simp add: sample_data_fields sample_db_fields raw)
qed

section \<open>The tier totals\<close>

text \<open>
  Claim C5. As stated (for clockIn before clockOut on one calendar day the three
  pre-break tier totals add up to the elapsed hours) it does not hold: the NORMAL window
  08:00 to 17:00 is nine hours long and the classifier counts at most eight of them.
  From 08:00 to 17:00 the totals are 8, 0 and 0, and nine hours have elapsed.
\<close>

theorem tiers_sum_counterexample:
  "hm 8 0 < hm 17 0 \<and> hm 17 0 div 86400000 = hm 8 0 div 86400000
   \<and> normalHours (calculateOvertime (hm 8 0) (hm 17 0) 12) = 8
   \<and> ot1_5Hours (calculateOvertime (hm 8 0) (hm 17 0) 12) = 0
   \<and> ot2Hours (calculateOvertime (hm 8 0) (hm 17 0) 12) = 0
   \<and> rat_of_int (hm 17 0 - hm 8 0) / 3600000 = 9"
  by (simp add: classifier_defs)

text \<open>
  Claim C5, amended: for clockIn before clockOut on one calendar day, each pre-break
  tier total is at least 0, and the three add up to the elapsed hours less the part of
  the interval's overlap with the window 08:00 to 17:00 that exceeds eight hours. So the
  sum never exceeds the elapsed hours and falls short of them by at most one hour.
\<close>

theorem tiers_sum_capped:
  fixes cin cout :: Date and rate :: rat
  assumes "cin < cout" and "cout div 86400000 = cin div 86400000"
  defines "oc \<equiv> calculateOvertime cin cout rate"
  defines "elapsed \<equiv> rat_of_int (cout - cin) / 3600000"
  defines "overlap \<equiv> rat_of_int (min cout (setHours cin 17 0 0 0)
                                  - max cin (setHours cin 8 0 0 0)) / 3600000"
  shows "0 \<le> normalHours oc \<and> 0 \<le> ot1_5Hours oc \<and> 0 \<le> ot2Hours oc
         \<and> normalHours oc + ot1_5Hours oc + ot2Hours oc = elapsed - max 0 (overlap - 8)
         \<and> normalHours oc + ot1_5Hours oc + ot2Hours oc \<le> elapsed
         \<and> elapsed - 1 \<le> normalHours oc + ot1_5Hours oc + ot2Hours oc"
proof -
  have s: "normalHours oc + ot1_5Hours oc + ot2Hours oc = elapsed - max 0 (overlap - 8)"
    unfolding oc_def elapsed_def overlap_def using assms(1,2) by (rule tiers_sum)
  have "overlap \<le> 9"
    unfolding overlap_def by (rule normal_window_at_most_9)
  then have "0 \<le> max 0 (overlap - 8)" "max 0 (overlap - 8) \<le> 1"
    by simp_all
  with s tiers_nonneg [of cin cout rate] show ?thesis
    unfolding oc_def by linarith
qed

theorem tiers_sum_capped_witness:
  "normalHours (calculateOvertime (hm 9 0) (hm 19 0) 12)
     + ot1_5Hours (calculateOvertime (hm 9 0) (hm 19 0) 12)
     + ot2Hours (calculateOvertime (hm 9 0) (hm 19 0) 12)
   = rat_of_int (hm 19 0 - hm 9 0) / 3600000
     - max 0 (rat_of_int (min (hm 19 0) (setHours (hm 9 0) 17 0 0 0)
                          - max (hm 9 0) (setHours (hm 9 0) 8 0 0 0)) / 3600000 - 8)"
proof -
  have h1: "hm 9 0 < hm 19 0" by (simp add: hm_def)
  have h2: "hm 19 0 div 86400000 = hm 9 0 div 86400000" by (simp add: hm_def)
  show ?thesis
    using tiers_sum_capped [OF h1 h2, of 12] by simp
qed




section \<open>Resubmission of the same interval\<close>

lemma POST_timesheets_unauthorized:
  "\<not> hasPermission user ''timesheets.create''
   \<Longrightarrow> POST_timesheets d user now data = (Json_error 401 ''Unauthorized'', d)"
  by (cases user) (simp_all add: POST_timesheets_def)

lemma POST_timesheets_not_found:
  "hasPermission (Some u) ''timesheets.create''
   \<Longrightarrow> find (\<lambda>e. emp_id e = employeeId data) (employees d) = None
   \<Longrightarrow> POST_timesheets d (Some u) now data = (Json_error 404 ''Employee not found'', d)"
  by (simp add: POST_timesheets_def)

lemma POST_timesheets_denied:
  "hasPermission (Some u) ''timesheets.create''
   \<Longrightarrow> find (\<lambda>e. emp_id e = employeeId data) (employees d) = Some emp
   \<Longrightarrow> truthy (companyId u) \<and> company_id emp \<noteq> companyId u
   \<Longrightarrow> POST_timesheets d (Some u) now data = (Json_error 403 ''Access denied'', d)"
  by (simp add: POST_timesheets_def)

lemma POST_timesheets_twice:
  assumes "clockOut data = Some t"
  shows "POST_timesheets (snd (POST_timesheets d user now1 data)) user now2 data
         = POST_timesheets d user now1 data"
proof (cases "hasPermission user ''timesheets.create''")
  case False
  then show ?thesis
    by (simp add: POST_timesheets_unauthorized)
next
  case perm: True
  then obtain u where u: "user = Some u"
    by (cases user) (simp_all add: hasPermission_def)
  show ?thesis
  proof (cases "find (\<lambda>e. emp_id e = employeeId data) (employees d)")
    case None
    then show ?thesis
      using perm unfolding u by (simp add: POST_timesheets_not_found)
  next
    case (Some emp)
    show ?thesis
    proof (cases "truthy (companyId u) \<and> company_id emp \<noteq> companyId u")
      case True
      have "POST_timesheets d' (Some u) now' data = (Json_error 403 ''Access denied'', d')"
        if "employees d' = employees d" for d' now'
        using perm [unfolded u] _ True
        by (rule POST_timesheets_denied) (simp add: that Some)
      then show ?thesis
        unfolding u by simp
    next
      case ok: False
      define b where "b = (case breakMinutes data of Some b \<Rightarrow> b | None \<Rightarrow> 0)"
      define oc where "oc = adjustForBreak b (calculateOvertime (clockIn data) t (hourly_rate emp))"
      let ?key = "(employeeId data, date data)"
      have first: "\<exists>new. POST_timesheets d (Some u) now1 data
            = (Json_ok 200 (new, overtimePay oc), d\<lparr>timesheets := (timesheets d)(?key \<mapsto> new)\<rparr>)
          \<and> clock_in new = clockIn data \<and> clock_out new = t \<and> break_minutes new = b
          \<and> normal_hours new = normalHours oc \<and> ot1_5_hours new = ot1_5Hours oc
          \<and> ot2_hours new = ot2Hours oc \<and> total_hours new = totalHours oc
          \<and> status new = PENDING
          \<and> (projectAssignmentId data \<noteq> None \<longrightarrow>
               project_assignment_id new = the (projectAssignmentId data))"
      proof (cases "timesheets d ?key")
        case None
        from POST_timesheets_fresh [OF perm [unfolded u] Some ok None, of now1]
        show ?thesis
          unfolding oc_def b_def assms by auto
      next
        case (Some old)
        from POST_timesheets_existing [OF perm [unfolded u] \<open>find _ _ = Some emp\<close> ok Some, of now1]
        show ?thesis
          unfolding oc_def b_def assms by auto
      qed
      then obtain new where new:
        "POST_timesheets d (Some u) now1 data
            = (Json_ok 200 (new, overtimePay oc), d\<lparr>timesheets := (timesheets d)(?key \<mapsto> new)\<rparr>)"
        "clock_in new = clockIn data" "clock_out new = t" "break_minutes new = b"
        "normal_hours new = normalHours oc" "ot1_5_hours new = ot1_5Hours oc"
        "ot2_hours new = ot2Hours oc" "total_hours new = totalHours oc" "status new = PENDING"
        "projectAssignmentId data \<noteq> None \<longrightarrow>
               project_assignment_id new = the (projectAssignmentId data)"
        by blast
      let ?d' = "d\<lparr>timesheets := (timesheets d)(?key \<mapsto> new)\<rparr>"
      have e': "find (\<lambda>e. emp_id e = employeeId data) (employees ?d') = Some emp"
        using Some by simp
      have t': "timesheets ?d' ?key = Some new"
        by simp
      have same: "new\<lparr>clock_in := clockIn data, clock_out := t, break_minutes := b,
          normal_hours := normalHours oc, ot1_5_hours := ot1_5Hours oc, ot2_hours := ot2Hours oc,
          total_hours := totalHours oc,
          project_assignment_id :=
            (case projectAssignmentId data of None \<Rightarrow> project_assignment_id new | Some a \<Rightarrow> a),
          status := PENDING\<rparr> = new"
        using new(2-10) by (cases "projectAssignmentId data") simp_all
      have "POST_timesheets ?d' (Some u) now2 data
          = (Json_ok 200 (new, overtimePay oc), ?d'\<lparr>timesheets := (timesheets ?d')(?key \<mapsto> new)\<rparr>)"
        using POST_timesheets_existing [OF perm [unfolded u] e' ok t', of now2]
        unfolding assms option.case b_def [symmetric] oc_def [symmetric] same .
      then show ?thesis
        unfolding u new(1) snd_conv by simp
    qed
  qed
qed

text \<open>
  Claim C7. As stated (the same WorkInterval, clockOut possibly null, submitted twice
  while PENDING yields identical derived fields, which depend only on the submitted
  input and the hourly rate) it does not hold for a null clockOut: the handler then
  takes the time of the request as clockOut. A PENDING entry, clockIn 09:00, no
  clockOut: submitted at 10:00 the derived total is 1 hour, submitted again at 11:00
  it is 2 hours.
\<close>

theorem open_interval_counterexample:
  "map_option status
     (timesheets (sample_db\<lparr>timesheets := [(''E1'', 0) \<mapsto> sample_entry\<lparr>status := PENDING\<rparr>]\<rparr>)
        (''E1'', 0)) = Some PENDING
   \<and> derivedFields (fst (POST_timesheets
        (sample_db\<lparr>timesheets := [(''E1'', 0) \<mapsto> sample_entry\<lparr>status := PENDING\<rparr>]\<rparr>)
        (Some sample_user) (hm 10 0) (sample_data (hm 9 0) None 0)))
       = Some (1, 0, 0, 1, 0)
   \<and> map_option status
       (timesheets (snd (POST_timesheets
        (sample_db\<lparr>timesheets := [(''E1'', 0) \<mapsto> sample_entry\<lparr>status := PENDING\<rparr>]\<rparr>)
        (Some sample_user) (hm 10 0) (sample_data (hm 9 0) None 0))) (''E1'', 0)) = Some PENDING
   \<and> derivedFields (fst (POST_timesheets
        (snd (POST_timesheets
          (sample_db\<lparr>timesheets := [(''E1'', 0) \<mapsto> sample_entry\<lparr>status := PENDING\<rparr>]\<rparr>)
          (Some sample_user) (hm 10 0) (sample_data (hm 9 0) None 0)))
        (Some sample_user) (hm 11 0) (sample_data (hm 9 0) None 0)))
       = Some (2, 0, 0, 2, 0)"
proof -
  let ?d = "sample_db\<lparr>timesheets := [(''E1'', 0) \<mapsto> sample_entry\<lparr>status := PENDING\<rparr>]\<rparr>"
  let ?data = "sample_data (hm 9 0) None 0"
  have oc1: "adjustForBreak 0 (calculateOvertime (hm 9 0) (hm 10 0) 12)
      = \<lparr>normalHours = 1, ot1_5Hours = 0, ot2Hours = 0, totalHours = 1, overtimePay = 0\<rparr>"
    by (simp add: classifier_defs)
  have oc2: "adjustForBreak 0 (calculateOvertime (hm 9 0) (hm 11 0) 12)
      = \<lparr>normalHours = 2, ot1_5Hours = 0, ot2Hours = 0, totalHours = 2, overtimePay = 0\<rparr>"
    by (simp add: classifier_defs)
  have old: "timesheets ?d (employeeId ?data, date ?data) = Some (sample_entry\<lparr>status := PENDING\<rparr>)"
    by (simp add: sample_data_fields)
  have p1: "POST_timesheets ?d (Some sample_user) (hm 10 0) ?data
      = (Json_ok 200 (sample_entry\<lparr>clock_in := hm 9 0, clock_out := hm 10 0, break_minutes := 0,
            normal_hours := 1, ot1_5_hours := 0, ot2_hours := 0, total_hours := 1,
            status := PENDING\<rparr>, 0),
         sample_db\<lparr>timesheets := [(''E1'', 0) \<mapsto>
           sample_entry\<lparr>clock_in := hm 9 0, clock_out := hm 10 0, break_minutes := 0,
            normal_hours := 1, ot1_5_hours := 0, ot2_hours := 0, total_hours := 1,
            status := PENDING\<rparr>]\<rparr>)"
    using POST_timesheets_existing
      [OF sample_checks(1) sample_checks(2) sample_checks(4) old, of "hm 10 0"]
    by (simp add: sample_data_fields sample_db_fields oc1)
  let ?d1 = "sample_db\<lparr>timesheets := [(''E1'', 0) \<mapsto>
           sample_entry\<lparr>clock_in := hm 9 0, clock_out := hm 10 0, break_minutes := 0,
            normal_hours := 1, ot1_5_hours := 0, ot2_hours := 0, total_hours := 1,
            status := PENDING\<rparr>]\<rparr>"
  have old1: "timesheets ?d1 (employeeId ?data, date ?data)
      = Some (sample_entry\<lparr>clock_in := hm 9 0, clock_out := hm 10 0, break_minutes := 0,
            normal_hours := 1, ot1_5_hours := 0, ot2_hours := 0, total_hours := 1,
            status := PENDING\<rparr>)"
    by (simp add: sample_data_fields)
  have p2: "fst (POST_timesheets ?d1 (Some sample_user) (hm 11 0) ?data)
      = Json_ok 200 (sample_entry\<lparr>clock_in := hm 9 0, clock_out := hm 11 0, break_minutes := 0,
            normal_hours := 2, ot1_5_hours := 0, ot2_hours := 0, total_hours := 2,
            status := PENDING\<rparr>, 0)"
    using POST_timesheets_existing
      [OF sample_checks(1) sample_checks(2) sample_checks(4) old1, of "hm 11 0"]
    by (simp add: sample_data_fields sample_db_fields oc2)
  show ?thesis
    unfolding p1 fst_conv snd_conv p2 by (simp add: derivedFields_def)
qed

text \<open>
  Claim C7, amended: when the submitted clockOut is not null, submitting the same
  body twice gives the same response and leaves the same ledger as submitting it
  once, whenever the two requests are made; and the derived fields of an accepted
  submission are those of the classifier and the break adjustment on the submitted
  clockIn, clockOut and break minutes and the employee's hourly rate, whatever else
  the database holds.
\<close>

theorem resubmission_idempotent:
  fixes d :: db and user :: "AuthUser option" and data :: timesheet_data
  assumes "clockOut data = Some t"
  defines "b \<equiv> (case breakMinutes data of Some b \<Rightarrow> b | None \<Rightarrow> 0)"
  shows "POST_timesheets (snd (POST_timesheets d user now1 data)) user now2 data
           = POST_timesheets d user now1 data
         \<and> (\<forall>u emp. user = Some u \<and> hasPermission user ''timesheets.create''
               \<and> find (\<lambda>e. emp_id e = employeeId data) (employees d) = Some emp
               \<and> \<not> (truthy (companyId u) \<and> company_id emp \<noteq> companyId u)
             \<longrightarrow> derivedFields (fst (POST_timesheets d user now1 data))
                 = (let oc = adjustForBreak b (calculateOvertime (clockIn data) t (hourly_rate emp))
                    in Some (normalHours oc, ot1_5Hours oc, ot2Hours oc, totalHours oc,
                             overtimePay oc)))"
proof (intro conjI allI impI)
  show "POST_timesheets (snd (POST_timesheets d user now1 data)) user now2 data
           = POST_timesheets d user now1 data"
    using assms(1) by (rule POST_timesheets_twice)
next
  fix u emp
  assume a: "user = Some u \<and> hasPermission user ''timesheets.create''
               \<and> find (\<lambda>e. emp_id e = employeeId data) (employees d) = Some emp
               \<and> \<not> (truthy (companyId u) \<and> company_id emp \<noteq> companyId u)"
  then have a1: "hasPermission (Some u) ''timesheets.create''"
    and a2: "find (\<lambda>e. emp_id e = employeeId data) (employees d) = Some emp"
    and a3: "\<not> (truthy (companyId u) \<and> company_id emp \<noteq> companyId u)"
    and u: "user = Some u"
    by auto
  from POST_timesheets_accepted [OF a1 a2 a3, of now1]
  show "derivedFields (fst (POST_timesheets d user now1 data))
      = (let oc = adjustForBreak b (calculateOvertime (clockIn data) t (hourly_rate emp))
         in Some (normalHours oc, ot1_5Hours oc, ot2Hours oc, totalHours oc, overtimePay oc))"
    unfolding u assms(1) option.case b_def [symmetric]
    by (auto simp add: derivedFields_def Let_def)
qed

theorem resubmission_idempotent_witness:
  "POST_timesheets
     (snd (POST_timesheets sample_db (Some sample_user) (hm 20 0)
             (sample_data (hm 9 0) (Some (hm 19 0)) 60)))
     (Some sample_user) (hm 21 0) (sample_data (hm 9 0) (Some (hm 19 0)) 60)
   = POST_timesheets sample_db (Some sample_user) (hm 20 0)
       (sample_data (hm 9 0) (Some (hm 19 0)) 60)
   \<and> derivedFields (fst (POST_timesheets sample_db (Some sample_user) (hm 20 0)
       (sample_data (hm 9 0) (Some (hm 19 0)) 60))) = Some (7, 2, 0, 9, 36)"
proof -
  let ?data = "sample_data (hm 9 0) (Some (hm 19 0)) 60"
  have h: "clockOut ?data = Some (hm 19 0)"
    by (simp add: sample_data_fields)
  have oc: "adjustForBreak 60 (calculateOvertime (hm 9 0) (hm 19 0) 12)
      = \<lparr>normalHours = 7, ot1_5Hours = 2, ot2Hours = 0, totalHours = 9, overtimePay = 36\<rparr>"
    by (simp add: classifier_defs)
  show ?thesis
    using resubmission_idempotent [OF h, of sample_db "Some sample_user" "hm 20 0" "hm 21 0"]
      sample_checks(1) sample_checks(3) [of "hm 9 0" "Some (hm 19 0)" 60] sample_checks(4)
    by (simp add: sample_data_fields sample_db_fields oc)
qed

section \<open>Cost propagation on approval\<close>

lemma select_hourly_rate_timesheets:
  "select_hourly_rate (d\<lparr>timesheets := ts\<rparr>) eid = select_hourly_rate d eid"
  by (simp add: select_hourly_rate_def)

lemma trigger_fires:
  assumes "status NEW = APPROVED" and "status OLD \<noteq> APPROVED"
    and "project_assignment_id NEW = Some a" and "project_assignments d a = Some pid"
    and "projects d pid = Some p" and "actual_cost p = Some c"
    and "find (\<lambda>e. emp_id e = employee_id NEW) (employees d) = Some emp"
  shows "update_project_actual_cost d OLD NEW =
           d\<lparr>projects := (projects d)(pid \<mapsto> p\<lparr>actual_cost := Some (c +
              (normal_hours NEW * hourly_rate emp
               + (ot1_5_hours NEW * hourly_rate emp * (3 / 2)
                  + ot2_hours NEW * hourly_rate emp * 2)))\<rparr>)\<rparr>"
  using assms
  by (simp add: update_project_actual_cost_def select_hourly_rate_def calculate_overtime_pay_def
      sql_add_def sql_mul_def)

lemma timesheet_update_row:
  "timesheets d key = Some OLD \<Longrightarrow>
   timesheet_update d key upd
     = update_project_actual_cost (d\<lparr>timesheets := (timesheets d)(key \<mapsto> upd OLD)\<rparr>) OLD (upd OLD)"
  by (simp add: timesheet_update_def)

lemma timesheet_update_stores:
  "timesheets d key = Some OLD \<Longrightarrow> timesheets (timesheet_update d key upd) key = Some (upd OLD)"
  by (simp add: timesheet_update_row trigger_keeps_timesheets)

text \<open>
  Claim C2: an \<^verbatim>\<open>UPDATE\<close> of an entry whose new row has a project assignment adds to the
  owning project's \<^verbatim>\<open>actual_cost\<close> exactly \<open>normal_hours \<times> hourly_rate + overtime pay\<close> of
  the new row when the update takes the status from a value other than APPROVED to
  APPROVED, and leaves every project as it was otherwise. A second approval of the
  same entry (any later update of the entry while it is APPROVED), which the database
  runs after the first on the row the first wrote, adds nothing: two approvals accrue
  once.
\<close>

theorem approval_accrues_once:
  fixes d :: db and key :: "string \<times> Date" and upd upd2 :: "timesheet \<Rightarrow> timesheet"
  assumes "timesheets d key = Some OLD"
    and "project_assignment_id (upd OLD) = Some a"
    and "project_assignments d a = Some pid"
    and "projects d pid = Some p"
    and "actual_cost p = Some c"
    and "find (\<lambda>e. emp_id e = employee_id (upd OLD)) (employees d) = Some emp"
  defines "NEW \<equiv> upd OLD"
  defines "delta \<equiv> normal_hours NEW * hourly_rate emp
      + (ot1_5_hours NEW * hourly_rate emp * (3 / 2) + ot2_hours NEW * hourly_rate emp * 2)"
  shows "projects (timesheet_update d key upd)
           = (projects d)(pid \<mapsto> p\<lparr>actual_cost := Some (c +
               (if status NEW = APPROVED \<and> status OLD \<noteq> APPROVED then delta else 0))\<rparr>)
         \<and> (status NEW = APPROVED \<longrightarrow>
              projects (timesheet_update (timesheet_update d key upd) key upd2)
                = projects (timesheet_update d key upd))"
proof
  let ?d = "d\<lparr>timesheets := (timesheets d)(key \<mapsto> upd OLD)\<rparr>"
  show "projects (timesheet_update d key upd)
           = (projects d)(pid \<mapsto> p\<lparr>actual_cost := Some (c +
               (if status NEW = APPROVED \<and> status OLD \<noteq> APPROVED then delta else 0))\<rparr>)"
  proof (cases "status NEW = APPROVED \<and> status OLD \<noteq> APPROVED")
    case True
    then have s: "status (upd OLD) = APPROVED" "status OLD \<noteq> APPROVED"
      by (simp_all add: NEW_def)
    have "update_project_actual_cost ?d OLD (upd OLD)
        = ?d\<lparr>projects := (projects ?d)(pid \<mapsto> p\<lparr>actual_cost := Some (c + delta)\<rparr>)\<rparr>"
      unfolding delta_def NEW_def
      using s assms(2) by (rule trigger_fires) (simp_all add: assms(3-6))
    then show ?thesis
      using True by (simp add: timesheet_update_row [OF assms(1)])
  next
    case False
    then have "update_project_actual_cost ?d OLD (upd OLD) = ?d"
      unfolding NEW_def by (rule trigger_idle)
    moreover have "p\<lparr>actual_cost := Some c\<rparr> = p"
      using assms(5) by simp
    moreover have "(if status NEW = APPROVED \<and> status OLD \<noteq> APPROVED then delta else 0) = 0"
      using False by (rule if_not_P)
    ultimately show ?thesis
      using assms(4) by (simp add: timesheet_update_row [OF assms(1)] fun_upd_idem)
  qed
  show "status NEW = APPROVED \<longrightarrow>
      projects (timesheet_update (timesheet_update d key upd) key upd2)
        = projects (timesheet_update d key upd)"
  proof
    assume ap: "status NEW = APPROVED"
    let ?d1 = "timesheet_update d key upd"
    have st: "timesheets ?d1 key = Some (upd OLD)"
      using assms(1) by (rule timesheet_update_stores)
    have "update_project_actual_cost (?d1\<lparr>timesheets := (timesheets ?d1)(key \<mapsto> upd2 (upd OLD))\<rparr>)
        (upd OLD) (upd2 (upd OLD)) = ?d1\<lparr>timesheets := (timesheets ?d1)(key \<mapsto> upd2 (upd OLD))\<rparr>"
      by (rule trigger_idle) (simp add: ap [unfolded NEW_def])
    then show "projects (timesheet_update ?d1 key upd2) = projects ?d1"
      by (simp add: timesheet_update_row [OF st])
  qed
qed

theorem approval_accrues_once_witness:
  "projects (timesheet_update
       (sample_db\<lparr>timesheets := [(''E1'', 0) \<mapsto> sample_entry\<lparr>status := PENDING\<rparr>]\<rparr>)
       (''E1'', 0) (\<lambda>r. r\<lparr>status := APPROVED\<rparr>))
     = [''P1'' \<mapsto> \<lparr>actual_cost = Some 1096\<rparr>]
   \<and> projects (timesheet_update (timesheet_update
       (sample_db\<lparr>timesheets := [(''E1'', 0) \<mapsto> sample_entry\<lparr>status := PENDING\<rparr>]\<rparr>)
       (''E1'', 0) (\<lambda>r. r\<lparr>status := APPROVED\<rparr>)) (''E1'', 0) (\<lambda>r. r\<lparr>status := APPROVED\<rparr>))
     = projects (timesheet_update
       (sample_db\<lparr>timesheets := [(''E1'', 0) \<mapsto> sample_entry\<lparr>status := PENDING\<rparr>]\<rparr>)
       (''E1'', 0) (\<lambda>r. r\<lparr>status := APPROVED\<rparr>))"
proof -
  let ?d = "sample_db\<lparr>timesheets := [(''E1'', 0) \<mapsto> sample_entry\<lparr>status := PENDING\<rparr>]\<rparr>"
  let ?old = "sample_entry\<lparr>status := PENDING\<rparr>"
  let ?approve = "\<lambda>r::timesheet. r\<lparr>status := APPROVED\<rparr>"
  have h1: "timesheets ?d (''E1'', 0) = Some ?old" by simp
  have h2: "project_assignment_id (?approve ?old) = Some ''A1''"
    by (simp add: sample_entry_def)
  have h3: "project_assignments ?d ''A1'' = Some ''P1''"
    by (simp add: sample_db_def)
  have h4: "projects ?d ''P1'' = Some \<lparr>actual_cost = Some 1000\<rparr>"
    by (simp add: sample_db_def)
  have h5: "actual_cost \<lparr>actual_cost = Some 1000\<rparr> = Some 1000" by simp
  have h6: "find (\<lambda>e. emp_id e = employee_id (?approve ?old)) (employees ?d) = Some sample_employee"
    by (simp add: sample_db_def sample_entry_def sample_employee_def)
  show ?thesis
    using approval_accrues_once [where upd = ?approve and OLD = ?old and ?upd2.0 = ?approve,
        OF h1 h2 h3 h4 h5 h6]
    by (simp add: sample_db_def sample_entry_def sample_employee_def)
qed

section \<open>The payroll period summary\<close>

lemma addEntries_totals:
  "sumNormalHours (addEntries rate eid s e acc es)
     = sumNormalHours acc + sum_list (map normal_hours (filter (inPayroll eid s e) es))"
  "sumEveningHours (addEntries rate eid s e acc es)
     = sumEveningHours acc + sum_list (map ot1_5_hours (filter (inPayroll eid s e) es))"
  "sumNightHours (addEntries rate eid s e acc es)
     = sumNightHours acc + sum_list (map ot2_hours (filter (inPayroll eid s e) es))"
  "pay (addEntries rate eid s e acc es)
     = pay acc + sum_list (map (entryPay rate) (filter (inPayroll eid s e) es))"
  by (induction es arbitrary: acc) simp_all

lemma addEntries_approved_only:
  "addEntries rate eid s e acc (filter (\<lambda>x. status x = APPROVED) es)
     = addEntries rate eid s e acc es"
  by (induction es arbitrary: acc) (simp_all add: inPayroll_def)

lemma inPayroll_filter:
  "filter (inPayroll eid s e) es
     = filter (\<lambda>x. employee_id x = eid \<and> status x = APPROVED \<and> s \<le> date' x \<and> date' x \<le> e) es"
  by (simp add: inPayroll_def [abs_def])

text \<open>
  Claim C8: the totals of \<^verbatim>\<open>getPayrollSummary\<close> are the sums of the normal, evening and
  night hours and of the pay (normal \<times> rate + evening \<times> rate \<times> 1.5 + night \<times> rate \<times> 2)
  over exactly the employee's APPROVED entries dated in the inclusive range; entries
  that are not APPROVED change nothing; and when no entry matches, every total is 0.
\<close>

theorem payroll_summary_approved_only:
  fixes rate :: rat and es :: "timesheet list" and eid :: string and s e :: Date
  defines "matching \<equiv> filter (\<lambda>x. employee_id x = eid \<and> status x = APPROVED
                                  \<and> s \<le> date' x \<and> date' x \<le> e) es"
  shows "sumNormalHours (getPayrollSummary rate es eid s e) = sum_list (map normal_hours matching)
       \<and> sumEveningHours (getPayrollSummary rate es eid s e) = sum_list (map ot1_5_hours matching)
       \<and> sumNightHours (getPayrollSummary rate es eid s e) = sum_list (map ot2_hours matching)
       \<and> pay (getPayrollSummary rate es eid s e)
           = sum_list (map (\<lambda>x. normal_hours x * rate + ot1_5_hours x * rate * (3 / 2)
                                 + ot2_hours x * rate * 2) matching)
       \<and> getPayrollSummary rate (filter (\<lambda>x. status x = APPROVED) es) eid s e
           = getPayrollSummary rate es eid s e
       \<and> (matching = [] \<longrightarrow>
            getPayrollSummary rate es eid s e
              = \<lparr>summaryEmployeeId = eid, periodStart = s, periodEnd = e, sumNormalHours = 0,
                 sumEveningHours = 0, sumNightHours = 0, pay = 0\<rparr>)"
proof -
  have m: "matching = filter (inPayroll eid s e) es"
    unfolding matching_def inPayroll_filter ..
  have keep: "summaryEmployeeId (addEntries rate eid s e acc xs) = summaryEmployeeId acc
      \<and> periodStart (addEntries rate eid s e acc xs) = periodStart acc
      \<and> periodEnd (addEntries rate eid s e acc xs) = periodEnd acc" for acc xs
    by (induction xs arbitrary: acc) simp_all
  have zero: "getPayrollSummary rate es eid s e
      = \<lparr>summaryEmployeeId = eid, periodStart = s, periodEnd = e, sumNormalHours = 0,
         sumEveningHours = 0, sumNightHours = 0, pay = 0\<rparr>" if "matching = []"
    using that keep [of "\<lparr>summaryEmployeeId = eid, periodStart = s, periodEnd = e, sumNormalHours = 0,
         sumEveningHours = 0, sumNightHours = 0, pay = 0\<rparr>" es]
    unfolding m getPayrollSummary_def
    by (intro PayrollPeriodSummary.equality) (simp_all add: addEntries_totals)
  have p: "entryPay rate = (\<lambda>x. normal_hours x * rate + ot1_5_hours x * rate * (3 / 2)
                                 + ot2_hours x * rate * 2)"
    by (simp add: entryPay_def [abs_def])
  show ?thesis
    unfolding m using zero [unfolded m]
    by (simp add: getPayrollSummary_def addEntries_totals addEntries_approved_only p)
qed

theorem payroll_summary_approved_only_witness:
  "getPayrollSummary 12 [sample_entry\<lparr>status := PENDING\<rparr>, sample_entry\<lparr>status := REJECTED\<rparr>]
      ''E1'' 0 86400000
     = \<lparr>summaryEmployeeId = ''E1'', periodStart = 0, periodEnd = 86400000, sumNormalHours = 0,
        sumEveningHours = 0, sumNightHours = 0, pay = 0\<rparr>
   \<and> sumNormalHours (getPayrollSummary 12 [sample_entry, sample_entry\<lparr>status := PENDING\<rparr>]
      ''E1'' 0 86400000) = 8
   \<and> pay (getPayrollSummary 12 [sample_entry, sample_entry\<lparr>status := PENDING\<rparr>]
      ''E1'' 0 86400000) = 96"
  using payroll_summary_approved_only
      [of 12 "[sample_entry\<lparr>status := PENDING\<rparr>, sample_entry\<lparr>status := REJECTED\<rparr>]"
        "''E1''" 0 86400000]
    payroll_summary_approved_only
      [of 12 "[sample_entry, sample_entry\<lparr>status := PENDING\<rparr>]" "''E1''" 0 86400000]
  by (simp add: sample_entry_def)

section \<open>Permissions\<close>

text \<open>
  Claim C9: \<^verbatim>\<open>hasPermission\<close> holds exactly when the user is not null and the user's
  permissions contain the permission asked for or the wildcard; so a null user is
  denied every permission, and a user holding the wildcard passes every check.
\<close>

theorem hasPermission_iff:
  "hasPermission user permission
     = (\<exists>u. user = Some u \<and> (permission \<in> set (permissions u) \<or> ''*'' \<in> set (permissions u)))
   \<and> \<not> hasPermission None permission
   \<and> (''*'' \<in> set (permissions v) \<longrightarrow> hasPermission (Some v) permission)"
  by (cases user) (simp_all add: hasPermission_def)

theorem hasPermission_iff_witness:
  "''*'' \<in> set (permissions (sample_user\<lparr>permissions := [''*'']\<rparr>))
   \<and> hasPermission (Some (sample_user\<lparr>permissions := [''*'']\<rparr>)) ''payroll.process''
   \<and> \<not> hasPermission (Some sample_user) ''payroll.process''"
  using hasPermission_iff [of "Some sample_user" "''payroll.process''"
      "sample_user\<lparr>permissions := [''*'']\<rparr>"]
  by (simp add: sample_user_def)

section \<open>The hourly rate of a new employee\<close>

lemma toFixed2_hundredths: "\<exists>k::int. toFixed2 x = rat_of_int k / 100"
proof -
  have "sgn x * rat_of_int \<lfloor>\<bar>x\<bar> * 100 + 1 / 2\<rfloor>
      = rat_of_int (- \<lfloor>\<bar>x\<bar> * 100 + 1 / 2\<rfloor>)
      \<or> sgn x * rat_of_int \<lfloor>\<bar>x\<bar> * 100 + 1 / 2\<rfloor> = rat_of_int \<lfloor>\<bar>x\<bar> * 100 + 1 / 2\<rfloor>
      \<or> sgn x * rat_of_int \<lfloor>\<bar>x\<bar> * 100 + 1 / 2\<rfloor> = rat_of_int 0"
    by (cases "x < 0"; cases "x = 0") (simp_all add: sgn_if)
  then show ?thesis
    unfolding toFixed2_def by metis
qed

lemma toFixed2_close: "\<bar>toFixed2 x - x\<bar> \<le> 1 / 200"
proof -
  define y where "y = \<bar>x\<bar> * 100"
  define n where "n = rat_of_int \<lfloor>y + 1 / 2\<rfloor>"
  have "n \<le> y + 1 / 2" "y + 1 / 2 < n + 1"
    unfolding n_def by linarith+
  then have near: "\<bar>n - y\<bar> \<le> 1 / 2"
    by linarith
  have "toFixed2 x - x = sgn x * (n - y) / 100"
    unfolding toFixed2_def n_def y_def
    by (simp add: sgn_if field_simps)
  then have "\<bar>toFixed2 x - x\<bar> = \<bar>sgn x * (n - y) / 100\<bar>"
    by (rule arg_cong)
  also have "\<dots> = \<bar>sgn x\<bar> * \<bar>n - y\<bar> / 100"
    by (simp add: abs_mult)
  also have "\<dots> \<le> \<bar>n - y\<bar> / 100"
    by (simp add: sgn_if)
  also have "\<dots> \<le> 1 / 200"
    using near by simp
  finally show ?thesis .
qed

text \<open>What the first handler does, case by case.\<close>

lemma POST_employees_unauthorized:
  "\<not> hasPermission user ''employees.create''
   \<Longrightarrow> POST_employees fl d user newId data = (Json_error 401 ''Unauthorized'', d)"
  by (cases user) (simp_all add: POST_employees_def)

lemma POST_employees_creates:
  assumes "hasPermission user ''employees.create''"
  shows "\<exists>row. POST_employees fl d user newId data
             = (Json_ok 200 row, d\<lparr>employees := employees d @ [row]\<rparr>)
           \<and> emp_id row = newId
           \<and> basic_salary row = basicSalary data
           \<and> hourly_rate row = fl (fl (basicSalary data * 12) / 2288)"
proof -
  from assms obtain u where "user = Some u"
    by (cases user) (simp_all add: hasPermission_def)
  with assms show ?thesis
    by (simp add: POST_employees_def Let_def)
qed

text \<open>What the second handler does, case by case.\<close>

lemma POST_employees_2_missing:
  "firstName body = [] \<or> lastName body = [] \<or> email' body = [] \<or> nric' body = []
     \<or> dateOfBirth body = [] \<or> gender body = [] \<or> nationality body = []
     \<or> joinDate body = [] \<or> basicSalary body = 0
   \<Longrightarrow> POST_employees_2 fl d newId body = (Json_error 400 ''Missing required fields'', d)"
  unfolding POST_employees_2_def by (rule if_P)

lemma POST_employees_2_duplicate:
  assumes "\<not> (firstName body = [] \<or> lastName body = [] \<or> email' body = [] \<or> nric' body = []
     \<or> dateOfBirth body = [] \<or> gender body = [] \<or> nationality body = []
     \<or> joinDate body = [] \<or> basicSalary body = 0)"
    and "find (\<lambda>e. email_col e = email' body \<or> nric_col e = nric' body) (employees d) \<noteq> None"
  shows "POST_employees_2 fl d newId body
           = (Json_error 400 ''Employee with this email or NRIC already exists'', d)"
  unfolding POST_employees_2_def if_not_P [OF assms(1)]
  using assms(2) by (auto split: option.splits)

lemma POST_employees_2_creates:
  assumes "\<not> (firstName body = [] \<or> lastName body = [] \<or> email' body = [] \<or> nric' body = []
     \<or> dateOfBirth body = [] \<or> gender body = [] \<or> nationality body = []
     \<or> joinDate body = [] \<or> basicSalary body = 0)"
    and "find (\<lambda>e. email_col e = email' body \<or> nric_col e = nric' body) (employees d) = None"
  shows "\<exists>row. POST_employees_2 fl d newId body
             = (Json_ok 201 row, d\<lparr>employees := employees d @ [row]\<rparr>)
           \<and> emp_id row = newId
           \<and> basic_salary row = basicSalary body
           \<and> hourly_rate row = toFixed2 (fl (fl (basicSalary body * 12) / 2288))"
  unfolding POST_employees_2_def if_not_P [OF assms(1)] assms(2)
  by (simp add: Let_def)

text \<open>Two roundings, each with relative error at most \<open>u\<close>, stay within \<open>2u + u\<^sup>2\<close> of
  the exact quotient.\<close>

lemma rounded_quotient_close:
  fixes fl :: "rat \<Rightarrow> rat" and u s :: rat
  assumes fl: "\<forall>x. \<bar>fl x - x\<bar> \<le> u * \<bar>x\<bar>"
  shows "\<bar>fl (fl (s * 12) / 2288) - s * 12 / 2288\<bar> \<le> (2 * u + u * u) * \<bar>s * 12 / 2288\<bar>"
proof -
  define p where "p = s * 12"
  define a where "a = fl p"
  define b where "b = fl (a / 2288)"
  have u0: "0 \<le> u"
    using fl [rule_format, of 1] by simp
  have ap: "\<bar>a - p\<bar> \<le> u * \<bar>p\<bar>"
    unfolding a_def using fl by blast
  have ba: "\<bar>b - a / 2288\<bar> \<le> u * \<bar>a / 2288\<bar>"
    unfolding b_def using fl by blast
  have "\<bar>a\<bar> \<le> \<bar>p\<bar> + u * \<bar>p\<bar>"
    using ap by linarith
  then have "u * \<bar>a\<bar> \<le> u * (\<bar>p\<bar> + u * \<bar>p\<bar>)"
    using u0 by (rule mult_left_mono)
  then have 1: "u * \<bar>a / 2288\<bar> \<le> (u + u * u) * \<bar>p / 2288\<bar>"
    by (simp add: field_simps)
  have "\<bar>a / 2288 - p / 2288\<bar> = \<bar>a - p\<bar> / 2288"
    by (simp add: diff_divide_distrib [symmetric])
  also have "\<dots> \<le> u * \<bar>p\<bar> / 2288"
    using ap by (simp add: divide_right_mono)
  finally have 2: "\<bar>a / 2288 - p / 2288\<bar> \<le> u * \<bar>p / 2288\<bar>"
    by simp
  have "\<bar>b - p / 2288\<bar> \<le> \<bar>b - a / 2288\<bar> + \<bar>a / 2288 - p / 2288\<bar>"
    by linarith
  also have "\<dots> \<le> (u + u * u) * \<bar>p / 2288\<bar> + u * \<bar>p / 2288\<bar>"
    using ba 1 2 by linarith
  also have "\<dots> = (2 * u + u * u) * \<bar>p / 2288\<bar>"
    by (simp add: algebra_simps)
  finally show ?thesis
    unfolding b_def a_def p_def .
qed

text \<open>
  Claim C10: an employee row created by either handler stores as hourly rate the
  submitted basic salary times 12 over 2288, computed with JavaScript's \<^verbatim>\<open>*\<close> and \<^verbatim>\<open>/\<close>,
  in the second handler rounded to two decimal places. The first handler creates the
  row exactly when the caller may create employees, the second exactly when no
  required field is missing and no employee has the email or NRIC; otherwise nothing
  is stored. A rate that the request itself carries has no effect on what either
  handler does. When the rounding of the two operations has relative error at most
  \<open>u\<close>, the computed rate is within \<open>2u + u\<^sup>2\<close> of the exact quotient, relatively.
\<close>

theorem hourly_rate_from_basic_salary:
  fixes fl :: "rat \<Rightarrow> rat" and d :: db and user :: "AuthUser option" and newId :: string
    and data :: employee_data
  defines "rate \<equiv> fl (fl (basicSalary data * 12) / 2288)"
  defines "missing \<equiv> firstName data = [] \<or> lastName data = [] \<or> email' data = []
     \<or> nric' data = [] \<or> dateOfBirth data = [] \<or> gender data = [] \<or> nationality data = []
     \<or> joinDate data = [] \<or> basicSalary data = 0"
  defines "existing \<equiv>
     find (\<lambda>e. email_col e = email' data \<or> nric_col e = nric' data) (employees d)"
  shows "(\<not> hasPermission user ''employees.create'' \<longrightarrow>
            POST_employees fl d user newId data = (Json_error 401 ''Unauthorized'', d))
       \<and> (hasPermission user ''employees.create'' \<longrightarrow>
            (\<exists>row. POST_employees fl d user newId data
                      = (Json_ok 200 row, d\<lparr>employees := employees d @ [row]\<rparr>)
                  \<and> emp_id row = newId \<and> basic_salary row = basicSalary data
                  \<and> hourly_rate row = rate))
       \<and> (missing \<longrightarrow>
            POST_employees_2 fl d newId data = (Json_error 400 ''Missing required fields'', d))
       \<and> (\<not> missing \<and> existing \<noteq> None \<longrightarrow>
            POST_employees_2 fl d newId data
              = (Json_error 400 ''Employee with this email or NRIC already exists'', d))
       \<and> (\<not> missing \<and> existing = None \<longrightarrow>
            (\<exists>row. POST_employees_2 fl d newId data
                      = (Json_ok 201 row, d\<lparr>employees := employees d @ [row]\<rparr>)
                  \<and> emp_id row = newId \<and> basic_salary row = basicSalary data
                  \<and> hourly_rate row = toFixed2 rate
                  \<and> (\<exists>k::int. hourly_rate row = rat_of_int k / 100)
                  \<and> \<bar>hourly_rate row - rate\<bar> \<le> 1 / 200))
       \<and> POST_employees fl d user newId (data\<lparr>hourlyRate := h\<rparr>)
           = POST_employees fl d user newId data
       \<and> POST_employees_2 fl d newId (data\<lparr>hourlyRate := h\<rparr>)
           = POST_employees_2 fl d newId data
       \<and> ((\<forall>x. \<bar>fl x - x\<bar> \<le> u * \<bar>x\<bar>) \<longrightarrow>
            \<bar>rate - basicSalary data * 12 / 2288\<bar>
              \<le> (2 * u + u * u) * \<bar>basicSalary data * 12 / 2288\<bar>)"
proof (intro conjI impI)
  assume "\<not> hasPermission user ''employees.create''"
  then show "POST_employees fl d user newId data = (Json_error 401 ''Unauthorized'', d)"
    by (rule POST_employees_unauthorized)
next
  assume "hasPermission user ''employees.create''"
  then show "\<exists>row. POST_employees fl d user newId data
                      = (Json_ok 200 row, d\<lparr>employees := employees d @ [row]\<rparr>)
                  \<and> emp_id row = newId \<and> basic_salary row = basicSalary data
                  \<and> hourly_rate row = rate"
    unfolding rate_def by (rule POST_employees_creates)
next
  assume missing
  then show "POST_employees_2 fl d newId data = (Json_error 400 ''Missing required fields'', d)"
    unfolding missing_def by (rule POST_employees_2_missing)
next
  assume "\<not> missing \<and> existing \<noteq> None"
  then show "POST_employees_2 fl d newId data
      = (Json_error 400 ''Employee with this email or NRIC already exists'', d)"
    unfolding missing_def existing_def by (blast intro: POST_employees_2_duplicate)
next
  assume "\<not> missing \<and> existing = None"
  then have "\<exists>row. POST_employees_2 fl d newId data
             = (Json_ok 201 row, d\<lparr>employees := employees d @ [row]\<rparr>)
           \<and> emp_id row = newId
           \<and> basic_salary row = basicSalary data
           \<and> hourly_rate row = toFixed2 rate"
    unfolding missing_def existing_def rate_def by (blast intro: POST_employees_2_creates)
  then show "\<exists>row. POST_employees_2 fl d newId data
                      = (Json_ok 201 row, d\<lparr>employees := employees d @ [row]\<rparr>)
                  \<and> emp_id row = newId \<and> basic_salary row = basicSalary data
                  \<and> hourly_rate row = toFixed2 rate
                  \<and> (\<exists>k::int. hourly_rate row = rat_of_int k / 100)
                  \<and> \<bar>hourly_rate row - rate\<bar> \<le> 1 / 200"
    using toFixed2_hundredths [of rate] toFixed2_close [of rate] by auto
next
  show "POST_employees fl d user newId (data\<lparr>hourlyRate := h\<rparr>)
      = POST_employees fl d user newId data"
    by (cases user) (simp_all add: POST_employees_def)
  show "POST_employees_2 fl d newId (data\<lparr>hourlyRate := h\<rparr>) = POST_employees_2 fl d newId data"
    by (simp add: POST_employees_2_def Let_def split: option.splits)
next
  assume "\<forall>x. \<bar>fl x - x\<bar> \<le> u * \<bar>x\<bar>"
  then show "\<bar>rate - basicSalary data * 12 / 2288\<bar>
      \<le> (2 * u + u * u) * \<bar>basicSalary data * 12 / 2288\<bar>"
    unfolding rate_def by (rule rounded_quotient_close)
qed

text \<open>At the sample body both operations are exact in doubles, so the identity stands for
  the rounding there: the first handler stores 13.125, the second 13.13.\<close>

theorem hourly_rate_from_basic_salary_witness:
  "(\<exists>row. POST_employees (\<lambda>x. x) sample_db (Some sample_user) ''E2'' sample_body
             = (Json_ok 200 row, sample_db\<lparr>employees := employees sample_db @ [row]\<rparr>)
         \<and> emp_id row = ''E2'' \<and> basic_salary row = 5005 / 2 \<and> hourly_rate row = 105 / 8)
   \<and> (\<exists>row. POST_employees_2 (\<lambda>x. x) sample_db ''E2'' sample_body
             = (Json_ok 201 row, sample_db\<lparr>employees := employees sample_db @ [row]\<rparr>)
         \<and> emp_id row = ''E2'' \<and> basic_salary row = 5005 / 2 \<and> hourly_rate row = 1313 / 100)
   \<and> POST_employees (\<lambda>x. x) sample_db None ''E2'' sample_body
       = (Json_error 401 ''Unauthorized'', sample_db)
   \<and> POST_employees_2 (\<lambda>x. x) sample_db ''E2'' (sample_body\<lparr>firstName := []\<rparr>)
       = (Json_error 400 ''Missing required fields'', sample_db)
   \<and> POST_employees_2 (\<lambda>x. x) sample_db ''E2'' (sample_body\<lparr>email' := ''mei@company.com''\<rparr>)
       = (Json_error 400 ''Employee with this email or NRIC already exists'', sample_db)"
proof -
  have perm: "hasPermission (Some sample_user) ''employees.create''"
    by (simp add: hasPermission_def sample_user_def)
  have noperm: "\<not> hasPermission None ''employees.create''"
    by (simp add: hasPermission_def)
  have fx: "toFixed2 (105 / 8) = 1313 / 100"
    by (simp add: toFixed2_def)
  have present: "\<not> (firstName sample_body = [] \<or> lastName sample_body = []
      \<or> email' sample_body = [] \<or> nric' sample_body = [] \<or> dateOfBirth sample_body = []
      \<or> gender sample_body = [] \<or> nationality sample_body = [] \<or> joinDate sample_body = []
      \<or> basicSalary sample_body = 0)"
    by (simp add: sample_body_def)
  have fresh: "find (\<lambda>e. email_col e = email' sample_body \<or> nric_col e = nric' sample_body)
      (employees sample_db) = None"
    by (simp add: sample_body_def sample_db_def sample_employee_def)
  have dup: "find (\<lambda>e. email_col e = email' (sample_body\<lparr>email' := ''mei@company.com''\<rparr>)
        \<or> nric_col e = nric' (sample_body\<lparr>email' := ''mei@company.com''\<rparr>))
      (employees sample_db) \<noteq> None"
    by (simp add: sample_db_def sample_employee_def)
  have present': "\<not> (firstName (sample_body\<lparr>email' := ''mei@company.com''\<rparr>) = []
      \<or> lastName (sample_body\<lparr>email' := ''mei@company.com''\<rparr>) = []
      \<or> email' (sample_body\<lparr>email' := ''mei@company.com''\<rparr>) = []
      \<or> nric' (sample_body\<lparr>email' := ''mei@company.com''\<rparr>) = []
      \<or> dateOfBirth (sample_body\<lparr>email' := ''mei@company.com''\<rparr>) = []
      \<or> gender (sample_body\<lparr>email' := ''mei@company.com''\<rparr>) = []
      \<or> nationality (sample_body\<lparr>email' := ''mei@company.com''\<rparr>) = []
      \<or> joinDate (sample_body\<lparr>email' := ''mei@company.com''\<rparr>) = []
      \<or> basicSalary (sample_body\<lparr>email' := ''mei@company.com''\<rparr>) = 0)"
    by (simp add: sample_body_def)
  have absent: "firstName (sample_body\<lparr>firstName := []\<rparr>) = []"
    by simp
  note a = hourly_rate_from_basic_salary
    [where fl = "\<lambda>x. x" and d = sample_db and user = "Some sample_user" and newId = "''E2''"
      and data = sample_body and h = None and u = 0]
  note b = hourly_rate_from_basic_salary
    [where fl = "\<lambda>x. x" and d = sample_db and user = None and newId = "''E2''"
      and data = "sample_body\<lparr>firstName := []\<rparr>" and h = None and u = 0]
  note c = hourly_rate_from_basic_salary
    [where fl = "\<lambda>x. x" and d = sample_db and user = None and newId = "''E2''"
      and data = "sample_body\<lparr>email' := ''mei@company.com''\<rparr>" and h = None and u = 0]
  note n = hourly_rate_from_basic_salary
    [where fl = "\<lambda>x. x" and d = sample_db and user = None and newId = "''E2''"
      and data = sample_body and h = None and u = 0]
  have 1: "\<exists>row. POST_employees (\<lambda>x. x) sample_db (Some sample_user) ''E2'' sample_body
             = (Json_ok 200 row, sample_db\<lparr>employees := employees sample_db @ [row]\<rparr>)
         \<and> emp_id row = ''E2'' \<and> basic_salary row = basicSalary sample_body
         \<and> hourly_rate row = basicSalary sample_body * 12 / 2288"
    using a perm by blast
  have 2: "\<exists>row. POST_employees_2 (\<lambda>x. x) sample_db ''E2'' sample_body
             = (Json_ok 201 row, sample_db\<lparr>employees := employees sample_db @ [row]\<rparr>)
         \<and> emp_id row = ''E2'' \<and> basic_salary row = basicSalary sample_body
         \<and> hourly_rate row = toFixed2 (basicSalary sample_body * 12 / 2288)"
    using a present fresh by blast
  have 3: "POST_employees (\<lambda>x. x) sample_db None ''E2'' sample_body
       = (Json_error 401 ''Unauthorized'', sample_db)"
    using n noperm by blast
  have 4: "POST_employees_2 (\<lambda>x. x) sample_db ''E2'' (sample_body\<lparr>firstName := []\<rparr>)
       = (Json_error 400 ''Missing required fields'', sample_db)"
    using b absent by blast
  have 5: "POST_employees_2 (\<lambda>x. x) sample_db ''E2'' (sample_body\<lparr>email' := ''mei@company.com''\<rparr>)
       = (Json_error 400 ''Employee with this email or NRIC already exists'', sample_db)"
    using c present' dup by blast
  have s: "basicSalary sample_body = 5005 / 2"
    by (simp add: sample_body_def)
  have r: "(5005 / 2 :: rat) * 12 / 2288 = 105 / 8"
    by simp
  show ?thesis
    using 1 2 3 4 5 unfolding s r fx by blast
qed

end
